theory Spec2Isabelle
  imports Complex_Main
begin

section \<open>Floating-point values\<close>

text \<open>
  The tracker computes on numpy floats. They are modelled as the reals extended with
  the three special values of IEEE arithmetic, because the code tests for them
  (\<^verbatim>\<open>np.isnan\<close>, \<^verbatim>\<open>np.ma.masked_invalid\<close>) and because comparisons with NaN are
  false. Finite arithmetic is exact: rounding, overflow and the sign of zero are not
  modelled (a zero divisor counts as \<open>+0\<close>).
\<close>

datatype npfloat = Fin real | PInf | NInf | NaN

fun isnan :: "npfloat \<Rightarrow> bool" where
  "isnan NaN = True"
| "isnan _ = False"

fun isfinite :: "npfloat \<Rightarrow> bool" where
  "isfinite (Fin _) = True"
| "isfinite _ = False"

text \<open>The infinity with the sign of \<open>s\<close>; NaN when \<open>s = 0\<close> (as in \<open>0 * inf\<close>, \<open>0 / 0\<close>).\<close>

definition inf_of_sign :: "real \<Rightarrow> npfloat" where
  "inf_of_sign s = (if s = 0 then NaN else if 0 < s then PInf else NInf)"

fun sign_of :: "npfloat \<Rightarrow> real" where
  "sign_of (Fin a) = sgn a"
| "sign_of PInf = 1"
| "sign_of NInf = - 1"
| "sign_of NaN = 0"

instantiation npfloat :: "{zero, one, plus, minus, uminus, times, inverse, ord}"
begin

definition zero_npfloat :: npfloat where
  "zero_npfloat = Fin 0"

definition one_npfloat :: npfloat where
  "one_npfloat = Fin 1"

fun uminus_npfloat :: "npfloat \<Rightarrow> npfloat" where
  "uminus_npfloat (Fin a) = Fin (- a)"
| "uminus_npfloat PInf = NInf"
| "uminus_npfloat NInf = PInf"
| "uminus_npfloat NaN = NaN"

fun plus_npfloat :: "npfloat \<Rightarrow> npfloat \<Rightarrow> npfloat" where
  "plus_npfloat (Fin a) (Fin b) = Fin (a + b)"
| "plus_npfloat NaN _ = NaN"
| "plus_npfloat _ NaN = NaN"
| "plus_npfloat PInf NInf = NaN"
| "plus_npfloat NInf PInf = NaN"
| "plus_npfloat PInf _ = PInf"
| "plus_npfloat _ PInf = PInf"
| "plus_npfloat NInf _ = NInf"
| "plus_npfloat _ NInf = NInf"

definition minus_npfloat :: "npfloat \<Rightarrow> npfloat \<Rightarrow> npfloat" where
  "minus_npfloat a b = a + (- b)"

fun times_npfloat :: "npfloat \<Rightarrow> npfloat \<Rightarrow> npfloat" where
  "times_npfloat (Fin a) (Fin b) = Fin (a * b)"
| "times_npfloat NaN _ = NaN"
| "times_npfloat _ NaN = NaN"
| "times_npfloat a b = inf_of_sign (sign_of a * sign_of b)"

fun divide_npfloat :: "npfloat \<Rightarrow> npfloat \<Rightarrow> npfloat" where
  "divide_npfloat (Fin a) (Fin b) = (if b = 0 then inf_of_sign a else Fin (a / b))"
| "divide_npfloat NaN _ = NaN"
| "divide_npfloat _ NaN = NaN"
| "divide_npfloat (Fin a) _ = Fin 0"
| "divide_npfloat a (Fin b) = inf_of_sign (sign_of a * (if 0 \<le> b then 1 else - 1))"
| "divide_npfloat _ _ = NaN"

definition inverse_npfloat :: "npfloat \<Rightarrow> npfloat" where
  "inverse_npfloat a = divide (Fin 1) a"

fun less_npfloat :: "npfloat \<Rightarrow> npfloat \<Rightarrow> bool" where
  "less_npfloat (Fin a) (Fin b) = (a < b)"
| "less_npfloat NaN _ = False"
| "less_npfloat _ NaN = False"
| "less_npfloat _ NInf = False"
| "less_npfloat PInf _ = False"
| "less_npfloat _ _ = True"

fun less_eq_npfloat :: "npfloat \<Rightarrow> npfloat \<Rightarrow> bool" where
  "less_eq_npfloat (Fin a) (Fin b) = (a \<le> b)"
| "less_eq_npfloat NaN _ = False"
| "less_eq_npfloat _ NaN = False"
| "less_eq_npfloat NInf _ = True"
| "less_eq_npfloat _ PInf = True"
| "less_eq_npfloat _ _ = False"

instance ..

end

text \<open>\<^verbatim>\<open>np.sqrt\<close>: NaN on a negative argument.\<close>

fun np_sqrt :: "npfloat \<Rightarrow> npfloat" where
  "np_sqrt (Fin a) = (if a < 0 then NaN else Fin (sqrt a))"
| "np_sqrt PInf = PInf"
| "np_sqrt _ = NaN"

text \<open>\<^verbatim>\<open>np.maximum\<close> and \<^verbatim>\<open>np.minimum\<close> propagate NaN.\<close>

definition np_maximum :: "npfloat \<Rightarrow> npfloat \<Rightarrow> npfloat" where
  "np_maximum a b = (if isnan a \<or> isnan b then NaN else if a < b then b else a)"

definition np_minimum :: "npfloat \<Rightarrow> npfloat \<Rightarrow> npfloat" where
  "np_minimum a b = (if isnan a \<or> isnan b then NaN else if b < a then b else a)"

section \<open>Geometric utilities\<close>

text \<open>
  A row \<^verbatim>\<open>[x1, y1, x2, y2]\<close> of a numpy array is a record; a detection row
  \<^verbatim>\<open>[x1, y1, x2, y2, score, class_id]\<close> extends it, so that the functions that read
  only the first four columns accept both.
\<close>

record box =
  x1 :: npfloat
  y1 :: npfloat
  x2 :: npfloat
  y2 :: npfloat

record detection = box +
  score :: npfloat
  class_id :: npfloat

text \<open>\<^verbatim>\<open>iou_batch\<close>, one entry of the broadcast: \<open>t\<close> a row of \<^verbatim>\<open>bb_test\<close>, \<open>g\<close> of \<^verbatim>\<open>bb_gt\<close>.\<close>

definition iou_entry :: "'a box_scheme \<Rightarrow> 'b box_scheme \<Rightarrow> npfloat" where
  "iou_entry t g =
     (let xx1 = np_maximum (x1 t) (x1 g);
          yy1 = np_maximum (y1 t) (y1 g);
          xx2 = np_minimum (x2 t) (x2 g);
          yy2 = np_minimum (y2 t) (y2 g);
          w = np_maximum (Fin 0) (xx2 - xx1);
          h = np_maximum (Fin 0) (yy2 - yy1);
          wh = w * h
      in wh / ((x2 t - x1 t) * (y2 t - y1 t) + (x2 g - x1 g) * (y2 g - y1 g) - wh))"

definition iou_batch :: "'a box_scheme list \<Rightarrow> 'b box_scheme list \<Rightarrow> npfloat list list" where
  "iou_batch bb_test bb_gt = map (\<lambda>t. map (\<lambda>g. iou_entry t g) bb_gt) bb_test"

definition convert_bbox_to_z :: "'a box_scheme \<Rightarrow> npfloat list" where
  "convert_bbox_to_z bbox =
     (let w = x2 bbox - x1 bbox;
          h = y2 bbox - y1 bbox;
          x = x1 bbox + w / Fin 2;
          y = y1 bbox + h / Fin 2;
          s = w * h;
          r = w / h
      in [x, y, s, r])"

text \<open>
  \<^verbatim>\<open>convert_x_to_bbox\<close> with \<^verbatim>\<open>score=None\<close>, the only way the tracker calls it; the
  result is the single row of the returned \<open>1 \<times> 4\<close> array.
\<close>

definition convert_x_to_bbox :: "npfloat list \<Rightarrow> box" where
  "convert_x_to_bbox x =
     (let w = np_sqrt (x ! 2 * x ! 3);
          h = x ! 2 / w
      in \<lparr>x1 = x ! 0 - w / Fin 2, y1 = x ! 1 - h / Fin 2,
          x2 = x ! 0 + w / Fin 2, y2 = x ! 1 + h / Fin 2\<rparr>)"

section \<open>Errors\<close>

text \<open>The exceptions the tracker can raise; a failing call returns \<open>Inl\<close> of one of them.\<close>

datatype error = AssertionError | LinAlgError | IndexError | ValueError | OverflowError

text \<open>Checked indexing: \<^verbatim>\<open>xs[i]\<close> for \<open>i \<ge> 0\<close> raises IndexError out of range.\<close>

definition getitem :: "'a list \<Rightarrow> nat \<Rightarrow> error + 'a" where
  "getitem xs i = (if i < length xs then Inr (xs ! i) else Inl IndexError)"

text \<open>\<^verbatim>\<open>int(v)\<close> of a float: truncation towards zero; NaN and the infinities raise.\<close>

fun py_int :: "npfloat \<Rightarrow> error + int" where
  "py_int (Fin a) = Inr (if 0 \<le> a then \<lfloor>a\<rfloor> else \<lceil>a\<rceil>)"
| "py_int NaN = Inl ValueError"
| "py_int _ = Inl OverflowError"

section \<open>Linear algebra\<close>

text \<open>
  A vector is the list of its entries (the column arrays of shape \<open>n \<times> 1\<close> of the
  source), a matrix the list of its rows. \<^verbatim>\<open>np.dot\<close> is the sum of products.
\<close>

type_synonym vec = "npfloat list"
type_synonym mat = "npfloat list list"

definition dot :: "vec \<Rightarrow> vec \<Rightarrow> npfloat" where
  "dot u v = foldr (+) (map2 (*) u v) (Fin 0)"

definition mat_vec :: "mat \<Rightarrow> vec \<Rightarrow> vec" where
  "mat_vec A v = map (\<lambda>row. dot row v) A"

definition mat_mul :: "mat \<Rightarrow> mat \<Rightarrow> mat" where
  "mat_mul A B = map (\<lambda>row. map (\<lambda>col. dot row col) (transpose B)) A"

definition vec_add :: "vec \<Rightarrow> vec \<Rightarrow> vec" where
  "vec_add u v = map2 (+) u v"

definition vec_sub :: "vec \<Rightarrow> vec \<Rightarrow> vec" where
  "vec_sub u v = map2 (-) u v"

definition mat_add :: "mat \<Rightarrow> mat \<Rightarrow> mat" where
  "mat_add A B = map2 vec_add A B"

definition mat_sub :: "mat \<Rightarrow> mat \<Rightarrow> mat" where
  "mat_sub A B = map2 vec_sub A B"

text \<open>\<^verbatim>\<open>np.eye(n)\<close>.\<close>

definition eye :: "nat \<Rightarrow> mat" where
  "eye n = map (\<lambda>i. map (\<lambda>j. if i = j then Fin 1 else Fin 0) [0..<n]) [0..<n]"

text \<open>\<^verbatim>\<open>M[i:, j:] *= c\<close>.\<close>

definition scale_block :: "nat \<Rightarrow> nat \<Rightarrow> npfloat \<Rightarrow> mat \<Rightarrow> mat" where
  "scale_block i j c M =
     map (\<lambda>(r, row). map (\<lambda>(k, e). if i \<le> r \<and> j \<le> k then e * c else e) (enumerate 0 row))
       (enumerate 0 M)"

text \<open>
  \<^verbatim>\<open>numpy.linalg.inv\<close> is library code. In exact arithmetic it returns the inverse of
  a non-singular matrix and raises \<^verbatim>\<open>LinAlgError\<close> on a singular one; the model
  computes the inverse as the adjugate divided by the determinant (Laplace expansion
  along the first row; the first argument of \<open>det\<close> is the dimension).
\<close>

definition del_at :: "nat \<Rightarrow> 'a list \<Rightarrow> 'a list" where
  "del_at i xs = take i xs @ drop (Suc i) xs"

definition minor :: "nat \<Rightarrow> nat \<Rightarrow> mat \<Rightarrow> mat" where
  "minor i j M = map (del_at j) (del_at i M)"

fun det :: "nat \<Rightarrow> mat \<Rightarrow> npfloat" where
  "det 0 M = Fin 1"
| "det (Suc n) M =
     foldr (+)
       (map (\<lambda>j. (if even j then Fin 1 else Fin (- 1)) * (M ! 0 ! j) * det n (minor 0 j M))
          [0..<Suc n])
       (Fin 0)"

definition adjugate :: "mat \<Rightarrow> mat" where
  "adjugate M =
     (let n = length M
      in map (\<lambda>i. map (\<lambda>j. (if even (i + j) then Fin 1 else Fin (- 1)) * det (n - 1) (minor j i M))
                 [0..<n]) [0..<n])"

definition inv :: "mat \<Rightarrow> error + mat" where
  "inv M =
     (let d = det (length M) M
      in if d = Fin 0 then Inl LinAlgError else Inr (map (map (\<lambda>c. c / d)) (adjugate M)))"

section \<open>Track state estimator\<close>

text \<open>
  \<^verbatim>\<open>filterpy.kalman.KalmanFilter\<close> is library code: the linear Kalman filter with
  state \<^verbatim>\<open>x\<close> and covariance \<^verbatim>\<open>P\<close>. The matrices \<^verbatim>\<open>F\<close>, \<^verbatim>\<open>H\<close>, \<^verbatim>\<open>Q\<close>, \<^verbatim>\<open>R\<close>
  are set by \<^verbatim>\<open>KalmanBoxTracker.__init__\<close> and never written again, so they are
  constants; \<^verbatim>\<open>x\<close> always has 7 entries and \<^verbatim>\<open>P\<close> is \<open>7 \<times> 7\<close>.
\<close>

record KalmanFilter =
  kf_x :: vec
  kf_P :: mat

definition kf_F :: mat where
  "kf_F = map (map Fin)
     [[1, 0, 0, 0, 1, 0, 0],
      [0, 1, 0, 0, 0, 1, 0],
      [0, 0, 1, 0, 0, 0, 1],
      [0, 0, 0, 1, 0, 0, 0],
      [0, 0, 0, 0, 1, 0, 0],
      [0, 0, 0, 0, 0, 1, 0],
      [0, 0, 0, 0, 0, 0, 1]]"

definition kf_H :: mat where
  "kf_H = map (map Fin)
     [[1, 0, 0, 0, 0, 0, 0], [0, 1, 0, 0, 0, 0, 0], [0, 0, 1, 0, 0, 0, 0], [0, 0, 0, 1, 0, 0, 0]]"

text \<open>\<^verbatim>\<open>R[2:, 2:] *= 10.0\<close> on the library's default \<^verbatim>\<open>eye(4)\<close>.\<close>

definition kf_R :: mat where
  "kf_R = scale_block 2 2 (Fin 10) (eye 4)"

text \<open>\<^verbatim>\<open>Q[-1, -1] *= 0.01; Q[4:, 4:] *= 0.01\<close> on the default \<^verbatim>\<open>eye(7)\<close>.\<close>

definition kf_Q :: mat where
  "kf_Q = scale_block 4 4 (Fin (1 / 100)) (scale_block 6 6 (Fin (1 / 100)) (eye 7))"

text \<open>\<^verbatim>\<open>P[4:, 4:] *= 1000.0; P *= 10.0\<close> on the default \<^verbatim>\<open>eye(7)\<close>.\<close>

definition kf_P0 :: mat where
  "kf_P0 = scale_block 0 0 (Fin 10) (scale_block 4 4 (Fin 1000) (eye 7))"

text \<open>\<^verbatim>\<open>KalmanFilter.predict()\<close>: \<open>x = F x\<close>, \<open>P = F P F\<^sup>T + Q\<close> (no control input, \<open>\<alpha> = 1\<close>).\<close>

definition KalmanFilter_predict :: "KalmanFilter \<Rightarrow> KalmanFilter" where
  "KalmanFilter_predict k =
     \<lparr>kf_x = mat_vec kf_F (kf_x k),
      kf_P = mat_add (mat_mul (mat_mul kf_F (kf_P k)) (transpose kf_F)) kf_Q\<rparr>"

text \<open>
  \<^verbatim>\<open>KalmanFilter.update(z)\<close>: residual \<open>y = z - H x\<close>, \<open>S = H P H\<^sup>T + R\<close>,
  gain \<open>K = P H\<^sup>T S\<^sup>-\<^sup>1\<close>, \<open>x = x + K y\<close>,
  \<open>P = (I - K H) P (I - K H)\<^sup>T + K R K\<^sup>T\<close>.
\<close>

definition KalmanFilter_update :: "KalmanFilter \<Rightarrow> vec \<Rightarrow> error + KalmanFilter" where
  "KalmanFilter_update k z =
     (let y = vec_sub z (mat_vec kf_H (kf_x k));
          PHT = mat_mul (kf_P k) (transpose kf_H);
          S = mat_add (mat_mul kf_H PHT) kf_R
      in case inv S of
           Inl e \<Rightarrow> Inl e
         | Inr SI \<Rightarrow>
             (let K = mat_mul PHT SI;
                  I_KH = mat_sub (eye 7) (mat_mul K kf_H)
              in Inr \<lparr>kf_x = vec_add (kf_x k) (mat_vec K y),
                      kf_P = mat_add (mat_mul (mat_mul I_KH (kf_P k)) (transpose I_KH))
                                     (mat_mul (mat_mul K kf_R) (transpose K))\<rparr>))"

text \<open>
  A \<^verbatim>\<open>KalmanBoxTracker\<close>. The class attribute \<^verbatim>\<open>KalmanBoxTracker.count\<close> is global
  to the process: the constructor takes its value and returns the new one.
\<close>

record KalmanBoxTracker =
  kf :: KalmanFilter
  time_since_update :: int
  trk_id :: int
  history :: "box list"
  hits :: int
  hit_streak :: int
  age :: int
  conf :: npfloat
  cls :: int

definition KalmanBoxTracker_init ::
    "int \<Rightarrow> 'a box_scheme \<Rightarrow> npfloat \<Rightarrow> int \<Rightarrow> KalmanBoxTracker \<times> int" where
  "KalmanBoxTracker_init count bbox cf cl =
     (\<lparr>kf = \<lparr>kf_x = convert_bbox_to_z bbox @ [Fin 0, Fin 0, Fin 0], kf_P = kf_P0\<rparr>,
       time_since_update = 0,
       trk_id = count,
       history = [],
       hits = 0,
       hit_streak = 0,
       age = 0,
       conf = cf,
       cls = cl\<rparr>, count + 1)"

definition KalmanBoxTracker_update ::
    "KalmanBoxTracker \<Rightarrow> 'a box_scheme \<Rightarrow> error + KalmanBoxTracker" where
  "KalmanBoxTracker_update self bbox =
     (case KalmanFilter_update (kf self) (convert_bbox_to_z bbox) of
        Inl e \<Rightarrow> Inl e
      | Inr k \<Rightarrow>
          Inr (self\<lparr>time_since_update := 0,
                    history := [],
                    hits := hits self + 1,
                    hit_streak := hit_streak self + 1,
                    kf := k\<rparr>))"

text \<open>\<^verbatim>\<open>predict\<close> returns the updated track and the predicted box \<^verbatim>\<open>history[-1]\<close>.\<close>

definition KalmanBoxTracker_predict :: "KalmanBoxTracker \<Rightarrow> KalmanBoxTracker \<times> box" where
  "KalmanBoxTracker_predict self =
     (let x = kf_x (kf self);
          x' = (if x ! 6 + x ! 2 \<le> Fin 0 then x[6 := x ! 6 * Fin 0] else x);
          k = KalmanFilter_predict ((kf self)\<lparr>kf_x := x'\<rparr>);
          pos = convert_x_to_bbox (kf_x k)
      in (self\<lparr>kf := k,
               age := age self + 1,
               hit_streak := (if time_since_update self > 0 then 0 else hit_streak self),
               time_since_update := time_since_update self + 1,
               history := history self @ [pos]\<rparr>, pos))"

definition get_state :: "KalmanBoxTracker \<Rightarrow> box" where
  "get_state self = convert_x_to_bbox (kf_x (kf self))"

section \<open>Associator\<close>

text \<open>
  \<^verbatim>\<open>scipy.optimize.linear_sum_assignment\<close> is library code whose result is not
  determined by its contract when several assignments are optimal. The associator and
  the orchestrator therefore take the solver as a parameter \<open>lsa\<close>: it maps a cost
  matrix to the arrays of row and column indices, or raises.
\<close>

type_synonym solver = "mat \<Rightarrow> error + nat list \<times> nat list"

definition linear_assignment :: "solver \<Rightarrow> mat \<Rightarrow> error + (nat \<times> nat) list" where
  "linear_assignment lsa cost_matrix =
     (case lsa cost_matrix of Inl e \<Rightarrow> Inl e | Inr (x, y) \<Rightarrow> Inr (zip x y))"

text \<open>\<^verbatim>\<open>.max()\<close> of a non-empty array of counts.\<close>

definition np_max :: "nat list \<Rightarrow> nat" where
  "np_max xs = fold max (tl xs) (hd xs)"

text \<open>\<^verbatim>\<open>np.stack(np.where(a), axis=1)\<close>: the positions of the non-zero entries, row by row.\<close>

definition np_where :: "nat list list \<Rightarrow> (nat \<times> nat) list" where
  "np_where a =
     concat (map (\<lambda>(i, row). map (\<lambda>(j, v). (i, j)) (filter (\<lambda>(j, v). v \<noteq> 0) (enumerate 0 row)))
               (enumerate 0 a))"

text \<open>
  Lines 194-201, the matching step. The matrix has \<open>length detections\<close> rows and a
  positive number of columns, so \<^verbatim>\<open>min(iou_matrix.shape) > 0\<close> says that there is a row.
  An empty result of \<^verbatim>\<open>linear_assignment\<close> is an array of shape \<open>(0,)\<close>, on which
  \<^verbatim>\<open>matched_indices[:, 0]\<close> raises.
\<close>

definition matching_step :: "solver \<Rightarrow> mat \<Rightarrow> npfloat \<Rightarrow> error + (nat \<times> nat) list" where
  "matching_step lsa iou_matrix iou_threshold =
     (if 0 < length iou_matrix then
        (let a = map (map (\<lambda>v. if v > iou_threshold then 1 else (0::nat))) iou_matrix
         in if np_max (map sum_list a) = 1 \<and> np_max (map sum_list (transpose a)) = 1
            then Inr (np_where a)
            else (case linear_assignment lsa (map (map uminus) iou_matrix) of
                    Inl e \<Rightarrow> Inl e
                  | Inr matched_indices \<Rightarrow>
                      if matched_indices = [] then Inl IndexError else Inr matched_indices))
      else Inr [])"

text \<open>Lines 212-219, the loop that filters out the matched pairs of low IoU.\<close>

fun filter_matches ::
    "mat \<Rightarrow> npfloat \<Rightarrow> (nat \<times> nat) list \<Rightarrow> (nat \<times> nat) list \<times> nat list \<times> nat list
     \<Rightarrow> error + (nat \<times> nat) list \<times> nat list \<times> nat list" where
  "filter_matches iou_matrix iou_threshold [] acc = Inr acc"
| "filter_matches iou_matrix iou_threshold (m # ms) (matches, unmatched_detections, unmatched_trackers) =
     (case getitem iou_matrix (fst m) of
        Inl e \<Rightarrow> Inl e
      | Inr row \<Rightarrow>
          (case getitem row (snd m) of
             Inl e \<Rightarrow> Inl e
           | Inr v \<Rightarrow>
               if v < iou_threshold
               then filter_matches iou_matrix iou_threshold ms
                      (matches, unmatched_detections @ [fst m], unmatched_trackers @ [snd m])
               else filter_matches iou_matrix iou_threshold ms
                      (matches @ [m], unmatched_detections, unmatched_trackers)))"

definition associate_detections_to_trackers ::
    "solver \<Rightarrow> 'a box_scheme list \<Rightarrow> 'b box_scheme list \<Rightarrow> npfloat
     \<Rightarrow> error + (nat \<times> nat) list \<times> nat list \<times> nat list" where
  "associate_detections_to_trackers lsa detections trks iou_threshold =
     (if length trks = 0 then Inr ([], [0..<length detections], [])
      else
        (let iou_matrix = iou_batch detections trks
         in case matching_step lsa iou_matrix iou_threshold of
              Inl e \<Rightarrow> Inl e
            | Inr matched_indices \<Rightarrow>
                (let unmatched_detections =
                       filter (\<lambda>d. d \<notin> set (map fst matched_indices)) [0..<length detections];
                     unmatched_trackers =
                       filter (\<lambda>t. t \<notin> set (map snd matched_indices)) [0..<length trks]
                 in filter_matches iou_matrix iou_threshold matched_indices
                      ([], unmatched_detections, unmatched_trackers))))"

text \<open>
  What the associator relies on from the solver at the cost matrix it passes: no row
  index and no column index is returned twice.
\<close>

definition solver_ok :: "solver \<Rightarrow> mat \<Rightarrow> bool" where
  "solver_ok lsa C = (case lsa C of Inl e \<Rightarrow> True | Inr (x, y) \<Rightarrow> distinct x \<and> distinct y)"

subsection \<open>An executable solver\<close>

text \<open>
  An instance of the solver, to run the model on concrete inputs: exhaustive search
  over the complete assignments of the smaller side, the first one of least total cost.
  As the library does, it raises on a NaN or \<open>-inf\<close> entry and when no assignment of
  finite cost exists, and it returns the row indices in increasing order.
\<close>

fun inj_seqs :: "nat \<Rightarrow> nat list \<Rightarrow> nat list list" where
  "inj_seqs 0 cs = [[]]"
| "inj_seqs (Suc k) cs = concat (map (\<lambda>c. map ((#) c) (inj_seqs k (remove1 c cs))) cs)"

definition assignment_cost :: "mat \<Rightarrow> nat list \<Rightarrow> npfloat" where
  "assignment_cost C cols = foldr (+) (map (\<lambda>(i, j). C ! i ! j) (enumerate 0 cols)) (Fin 0)"

fun first_min :: "('a \<Rightarrow> npfloat) \<Rightarrow> 'a list \<Rightarrow> 'a \<Rightarrow> 'a" where
  "first_min f [] best = best"
| "first_min f (c # cs) best = first_min f cs (if f c < f best then c else best)"

text \<open>The case of at most as many rows as columns: every row gets a column.\<close>

definition solve_rows :: "mat \<Rightarrow> error + nat list" where
  "solve_rows C =
     (if list_ex (\<lambda>v. isnan v \<or> v = NInf) (concat C) then Inl ValueError
      else
        (case inj_seqs (length C) [0..<length (hd C)] of
           [] \<Rightarrow> Inl ValueError
         | c # cs \<Rightarrow>
             (let best = first_min (assignment_cost C) cs c
              in if assignment_cost C best = PInf then Inl ValueError else Inr best)))"

definition linear_sum_assignment :: solver where
  "linear_sum_assignment C =
     (if C = [] \<or> hd C = [] then Inr ([], [])
      else if length C \<le> length (hd C) then
        (case solve_rows C of Inl e \<Rightarrow> Inl e | Inr cols \<Rightarrow> Inr ([0..<length C], cols))
      else
        (case solve_rows (transpose C) of
           Inl e \<Rightarrow> Inl e
         | Inr rows \<Rightarrow>
             (let ps = sort_key fst (zip rows [0..<length rows])
              in Inr (map fst ps, map snd ps))))"

subsection \<open>The associator without the shortcut\<close>




section \<open>Tracker orchestrator\<close>

record SortTracker =
  max_age :: int
  min_hits :: int
  iou_threshold :: npfloat
  trackers :: "KalmanBoxTracker list"
  frame_count :: int

definition SortTracker_init :: "int \<Rightarrow> int \<Rightarrow> npfloat \<Rightarrow> error + SortTracker" where
  "SortTracker_init max_age' min_hits' iou_threshold' =
     (if \<not> max_age' \<ge> 0 then Inl AssertionError
      else if \<not> min_hits' \<ge> 0 then Inl AssertionError
      else Inr \<lparr>max_age = max_age', min_hits = min_hits', iou_threshold = iou_threshold',
                trackers = [], frame_count = 0\<rparr>)"

definition box_has_nan :: "box \<Rightarrow> bool" where
  "box_has_nan b = (isnan (x1 b) \<or> isnan (y1 b) \<or> isnan (x2 b) \<or> isnan (y2 b))"

text \<open>
  A row \<^verbatim>\<open>[pos[0], pos[1], pos[2], pos[3], 0]\<close> of \<^verbatim>\<open>tracks\<close> survives
  \<^verbatim>\<open>np.ma.compress_rows(np.ma.masked_invalid(tracks))\<close> when it has no NaN and no infinity.
\<close>

definition box_is_finite :: "box \<Rightarrow> bool" where
  "box_is_finite b = (isfinite (x1 b) \<and> isfinite (y1 b) \<and> isfinite (x2 b) \<and> isfinite (y2 b))"

text \<open>\<^verbatim>\<open>for t in ts: trackers.pop(t)\<close>.\<close>

fun pop_all :: "nat list \<Rightarrow> 'a list \<Rightarrow> 'a list" where
  "pop_all [] xs = xs"
| "pop_all (t # ts) xs = pop_all ts (del_at t xs)"

text \<open>Lines 269-270: \<^verbatim>\<open>for m in matched: self.trackers[m[1]].update(dets[m[0], :])\<close>.\<close>

fun update_matched ::
    "KalmanBoxTracker list \<Rightarrow> detection list \<Rightarrow> (nat \<times> nat) list \<Rightarrow> error + KalmanBoxTracker list" where
  "update_matched trks dets [] = Inr trks"
| "update_matched trks dets (m # ms) =
     (case getitem trks (snd m) of
        Inl e \<Rightarrow> Inl e
      | Inr trk \<Rightarrow>
          (case getitem dets (fst m) of
             Inl e \<Rightarrow> Inl e
           | Inr d \<Rightarrow>
               (case KalmanBoxTracker_update trk d of
                  Inl e \<Rightarrow> Inl e
                | Inr trk' \<Rightarrow> update_matched (trks[snd m := trk']) dets ms)))"

text \<open>Lines 273-275: a new track for every unmatched detection, appended to the live list.\<close>

fun create_tracks ::
    "int \<Rightarrow> KalmanBoxTracker list \<Rightarrow> detection list \<Rightarrow> nat list
     \<Rightarrow> error + KalmanBoxTracker list \<times> int" where
  "create_tracks count trks dets [] = Inr (trks, count)"
| "create_tracks count trks dets (i # is) =
     (case getitem dets i of
        Inl e \<Rightarrow> Inl e
      | Inr d \<Rightarrow>
          (case py_int (class_id d) of
             Inl e \<Rightarrow> Inl e
           | Inr cl \<Rightarrow>
               (let (trk, count') = KalmanBoxTracker_init count d (score d) cl
                in create_tracks count' (trks @ [trk]) dets is)))"

text \<open>
  Lines 253-275: count the frame, predict every track, drop the tracks whose prediction
  has a NaN, associate, update the matched tracks and create the new ones.
\<close>

definition advance_tracks ::
    "solver \<Rightarrow> int \<Rightarrow> SortTracker \<Rightarrow> detection list \<Rightarrow> error + SortTracker \<times> int" where
  "advance_tracks lsa count self dets =
     (let predicted = map KalmanBoxTracker_predict (trackers self);
          to_del = filter (\<lambda>t. box_has_nan (snd (predicted ! t))) [0..<length predicted];
          tracks = filter box_is_finite (map snd predicted);
          trks = pop_all (rev to_del) (map fst predicted)
      in case associate_detections_to_trackers lsa dets tracks (iou_threshold self) of
           Inl e \<Rightarrow> Inl e
         | Inr (matched, unmatched_dets, unmatched_tracks) \<Rightarrow>
             (case update_matched trks dets matched of
                Inl e \<Rightarrow> Inl e
              | Inr trks' \<Rightarrow>
                  (case create_tracks count trks' dets unmatched_dets of
                     Inl e \<Rightarrow> Inl e
                   | Inr (trks'', count') \<Rightarrow>
                       Inr (self\<lparr>frame_count := frame_count self + 1, trackers := trks''\<rparr>,
                            count'))))"

text \<open>The condition of line 280 and the row of line 281.\<close>

definition reportable :: "SortTracker \<Rightarrow> KalmanBoxTracker \<Rightarrow> bool" where
  "reportable self trk =
     (time_since_update trk < 1 \<and>
      (hit_streak trk \<ge> min_hits self \<or> frame_count self \<le> min_hits self))"

definition report_row :: "KalmanBoxTracker \<Rightarrow> npfloat list" where
  "report_row trk =
     (let d = get_state trk
      in [x1 d, y1 d, x2 d, y2 d, Fin (of_int (trk_id trk + 1)), Fin (of_int (cls trk)), conf trk])"

text \<open>
  Lines 276-286: the walk over \<^verbatim>\<open>reversed(self.trackers)\<close>; \<open>i\<close> is the number of
  tracks not yet visited, the track visited next is at index \<open>i - 1\<close>, and a dead
  track is popped at its own index.
\<close>

fun report_loop ::
    "SortTracker \<Rightarrow> nat \<Rightarrow> KalmanBoxTracker list \<Rightarrow> npfloat list list
     \<Rightarrow> KalmanBoxTracker list \<times> npfloat list list" where
  "report_loop self 0 trks ret = (trks, ret)"
| "report_loop self (Suc i) trks ret =
     (let trk = trks ! i;
          ret' = (if reportable self trk then ret @ [report_row trk] else ret);
          trks' = (if time_since_update trk > max_age self then del_at i trks else trks)
      in report_loop self i trks' ret')"

text \<open>
  \<^verbatim>\<open>SortTracker.update\<close>: the new tracker, the new value of the global counter and
  the returned array, row by row.
\<close>

definition SortTracker_update ::
    "solver \<Rightarrow> int \<Rightarrow> SortTracker \<Rightarrow> detection list
     \<Rightarrow> error + SortTracker \<times> int \<times> npfloat list list" where
  "SortTracker_update lsa count self dets =
     (case advance_tracks lsa count self dets of
        Inl e \<Rightarrow> Inl e
      | Inr (mid, count') \<Rightarrow>
          (let (trks, ret) = report_loop mid (length (trackers mid)) (trackers mid) []
           in Inr (mid\<lparr>trackers := trks\<rparr>, count', ret)))"

subsection \<open>Sequences of calls on one track\<close>

text \<open>
  The orchestrator drives a track by calling \<^verbatim>\<open>predict\<close> and \<^verbatim>\<open>update\<close> on it;
  \<open>run_calls\<close> performs a sequence of such calls and stops at the first one that raises.
\<close>

datatype call = Predict | Update box

fun run_calls :: "KalmanBoxTracker \<Rightarrow> call list \<Rightarrow> error + KalmanBoxTracker" where
  "run_calls trk [] = Inr trk"
| "run_calls trk (Predict # cs) = run_calls (fst (KalmanBoxTracker_predict trk)) cs"
| "run_calls trk (Update bbox # cs) =
     (case KalmanBoxTracker_update trk bbox of
        Inl e \<Rightarrow> Inl e
      | Inr trk' \<Rightarrow> run_calls trk' cs)"

subsection \<open>The covariance of a young track\<close>

text \<open>
  The covariance of a track does not depend on the boxes it is fed. These are its
  values after the first prediction, the first update, the second prediction and the
  second update (lemmas \<open>predict_cov0\<close> to \<open>update_cov3\<close> below).
\<close>

definition cov1 :: mat where
  "cov1 = map (map Fin)
     [[10011, 0, 0, 0, 10000, 0, 0],
      [0, 10011, 0, 0, 0, 10000, 0],
      [0, 0, 10011, 0, 0, 0, 10000],
      [0, 0, 0, 11, 0, 0, 0],
      [10000, 0, 0, 0, 1000001 / 100, 0, 0],
      [0, 10000, 0, 0, 0, 1000001 / 100, 0],
      [0, 0, 10000, 0, 0, 0, 100000001 / 10000]]"

definition cov2 :: mat where
  "cov2 = map (map Fin)
     [[10011 / 10012, 0, 0, 0, 2500 / 2503, 0, 0],
      [0, 10011 / 10012, 0, 0, 0, 2500 / 2503, 0],
      [0, 0, 100110 / 10021, 0, 0, 0, 100000 / 10021],
      [0, 0, 0, 110 / 21, 0, 0, 0],
      [2500 / 2503, 0, 0, 0, 3002503 / 250300, 0, 0],
      [0, 2500 / 2503, 0, 0, 0, 3002503 / 250300, 0],
      [0, 0, 100000 / 10021, 0, 0, 0, 2100010021 / 100210000]]"

definition cov3 :: mat where
  "cov3 = map (map Fin)
     [[2001539 / 125150, 0, 0, 0, 3252503 / 250300, 0, 0],
      [0, 2001539 / 125150, 0, 0, 0, 3252503 / 250300, 0],
      [0, 0, 5201320021 / 100210000, 0, 0, 0, 3100010021 / 100210000],
      [0, 0, 0, 131 / 21, 0, 0, 0],
      [3252503 / 250300, 0, 0, 0, 1502503 / 125150, 0, 0],
      [0, 3252503 / 250300, 0, 0, 0, 1502503 / 125150, 0],
      [0, 0, 3100010021 / 100210000, 0, 0, 0, 1050010021 / 50105000]]"

definition cov4 :: mat where
  "cov4 = map (map Fin)
     [[2001539 / 2126689, 0, 0, 0, 3252503 / 4253378, 0, 0],
      [0, 2001539 / 2126689, 0, 0, 0, 3252503 / 4253378, 0],
      [0, 0, 52013200210 / 6203420021, 0, 0, 0, 31000100210 / 6203420021],
      [0, 0, 0, 1310 / 341, 0, 0, 0],
      [3252503 / 4253378, 0, 0, 0, 880004253 / 425337800, 0, 0],
      [0, 3252503 / 4253378, 0, 0, 0, 880004253 / 425337800, 0],
      [0, 0, 31000100210 / 6203420021, 0, 0, 0, 341008306830021 / 62034200210000]]"

text \<open>
  The filter state of a track at rest on the box with corners \<open>(a, b)\<close> and \<open>(c, d)\<close>:
  centre, area, aspect ratio and zero velocities.
\<close>

definition rest_state :: "real \<Rightarrow> real \<Rightarrow> real \<Rightarrow> real \<Rightarrow> vec" where
  "rest_state a b c d =
     [Fin (a + (c - a) / 2), Fin (b + (d - b) / 2), Fin ((c - a) * (d - b)), Fin ((c - a) / (d - b)),
      Fin 0, Fin 0, Fin 0]"

section \<open>Theorems\<close>

lemma bbox_roundtrip:
  assumes "a < c" and "b < d"
  shows "convert_x_to_bbox (convert_bbox_to_z \<lparr>x1 = Fin a, y1 = Fin b, x2 = Fin c, y2 = Fin d\<rparr>)
         = \<lparr>x1 = Fin a, y1 = Fin b, x2 = Fin c, y2 = Fin d\<rparr>"
proof -
  have w: "0 < c - a" and h: "0 < d - b" using assms by simp_all
  have "(c - a) * (d - b) * ((c - a) / (d - b)) = (c - a) * (c - a)"
    using h by simp
  then have s: "sqrt ((c - a) * (d - b) * ((c - a) / (d - b))) = c - a"
    using w by simp
  have nn: "\<not> (c - a) * (d - b) * ((c - a) / (d - b)) < 0"
    using w h by (simp add: not_less)
  show ?thesis
    using w h s nn
    by (simp add: convert_x_to_bbox_def convert_bbox_to_z_def Let_def minus_npfloat_def)
qed


text \<open>
  C7: for every box with finite corners, positive width and positive height,
  converting to centre form and back with \<open>convert_x_to_bbox\<close> returns the box
  (exactly, in real arithmetic).
\<close>

theorem C7_conversion_roundtrip:
  "a < c \<Longrightarrow> b < d \<Longrightarrow>
   convert_x_to_bbox (convert_bbox_to_z \<lparr>x1 = Fin a, y1 = Fin b, x2 = Fin c, y2 = Fin d\<rparr>)
   = \<lparr>x1 = Fin a, y1 = Fin b, x2 = Fin c, y2 = Fin d\<rparr>"
  by (rule bbox_roundtrip)

theorem C7_conversion_roundtrip_witness:
  "(1::real) < 4 \<and> (2::real) < 6 \<and>
   convert_x_to_bbox (convert_bbox_to_z \<lparr>x1 = Fin 1, y1 = Fin 2, x2 = Fin 4, y2 = Fin 6\<rparr>)
   = \<lparr>x1 = Fin 1, y1 = Fin 2, x2 = Fin 4, y2 = Fin 6\<rparr>"
  using C7_conversion_roundtrip [of 1 4 2 6] by simp

text \<open>
  C10: \<open>SortTracker_init\<close> raises on a negative \<open>max_age\<close> and on a negative
  \<open>min_hits\<close>; otherwise it succeeds for every value of \<open>iou_threshold\<close> whatsoever
  (below 0, above 1, infinite or NaN) and stores that value unchanged, which is the
  value \<open>advance_tracks\<close> hands to the associator.
\<close>

theorem C10_init_validation:
  "(ma < 0 \<or> mh < 0 \<longrightarrow> SortTracker_init ma mh th = Inl AssertionError) \<and>
   (0 \<le> ma \<and> 0 \<le> mh \<longrightarrow>
      SortTracker_init ma mh th =
        Inr \<lparr>max_age = ma, min_hits = mh, iou_threshold = th, trackers = [], frame_count = 0\<rparr>)"
  by (auto simp: SortTracker_init_def)

theorem C10_init_validation_witness:
  "SortTracker_init (- 1) 3 (Fin (3 / 10)) = Inl AssertionError \<and>
   SortTracker_init 1 (- 1) (Fin (3 / 10)) = Inl AssertionError \<and>
   SortTracker_init 1 3 (Fin (- 5)) =
     Inr \<lparr>max_age = 1, min_hits = 3, iou_threshold = Fin (- 5), trackers = [], frame_count = 0\<rparr> \<and>
   SortTracker_init 1 3 NaN =
     Inr \<lparr>max_age = 1, min_hits = 3, iou_threshold = NaN, trackers = [], frame_count = 0\<rparr>"
  using C10_init_validation [of "- 1" 3 "Fin (3 / 10)"] C10_init_validation [of 1 "- 1" "Fin (3 / 10)"]
    C10_init_validation [of 1 3 "Fin (- 5)"] C10_init_validation [of 1 3 NaN]
  by simp

subsection \<open>The track's counters and identity\<close>

lemma update_fields:
  assumes "KalmanBoxTracker_update trk bbox = Inr trk'"
  shows "trk_id trk' = trk_id trk" and "cls trk' = cls trk" and "conf trk' = conf trk"
    and "time_since_update trk' = 0" and "hit_streak trk' = hit_streak trk + 1"
  using assms by (auto simp: KalmanBoxTracker_update_def split: sum.splits)

lemma predict_fields:
  "trk_id (fst (KalmanBoxTracker_predict trk)) = trk_id trk"
  "cls (fst (KalmanBoxTracker_predict trk)) = cls trk"
  "conf (fst (KalmanBoxTracker_predict trk)) = conf trk"
  "time_since_update (fst (KalmanBoxTracker_predict trk)) = time_since_update trk + 1"
  "hit_streak (fst (KalmanBoxTracker_predict trk)) =
     (if time_since_update trk > 0 then 0 else hit_streak trk)"
  by (simp_all add: KalmanBoxTracker_predict_def Let_def)

lemma run_calls_identity:
  "run_calls trk cs = Inr trk' \<Longrightarrow>
   trk_id trk' = trk_id trk \<and> cls trk' = cls trk \<and> conf trk' = conf trk"
proof (induction trk cs rule: run_calls.induct)
  case (1 trk)
  then show ?case by simp
next
  case (2 trk cs)
  then show ?case by (simp add: predict_fields)
next
  case (3 trk bbox cs)
  then show ?case by (auto split: sum.splits dest: update_fields(1,2,3))
qed

lemma run_calls_streak:
  "run_calls trk cs = Inr trk' \<Longrightarrow>
   0 \<le> time_since_update trk \<Longrightarrow> (1 < time_since_update trk \<longrightarrow> hit_streak trk = 0) \<Longrightarrow>
   0 \<le> time_since_update trk' \<and> (1 < time_since_update trk' \<longrightarrow> hit_streak trk' = 0)"
proof (induction trk cs rule: run_calls.induct)
  case (1 trk)
  then show ?case by simp
next
  case (2 trk cs)
  then show ?case by (simp add: predict_fields)
next
  case (3 trk bbox cs)
  then show ?case by (auto split: sum.splits dest: update_fields(4))
qed

subsection \<open>Evaluating the filter\<close>

lemma del_at_simps:
  "del_at 0 (x # xs) = xs"
  "del_at (Suc n) (x # xs) = x # del_at n xs"
  "del_at n [] = []"
  by (simp_all add: del_at_def)

lemma det_Suc_eval:
  "det (Suc n) (r # rs) =
     foldr (+) (map (\<lambda>j. (if even j then Fin 1 else Fin (- 1)) * (r ! j) * det n (map (del_at j) rs))
                  [0..<Suc n]) (Fin 0)"
  by (simp add: minor_def del_at_simps del: upt_Suc)

lemma upt_evals:
  "[0..<Suc (Suc (Suc (Suc 0)))] = [0, Suc 0, Suc (Suc 0), Suc (Suc (Suc 0))]"
  "[0..<Suc (Suc (Suc 0))] = [0, Suc 0, Suc (Suc 0)]"
  "[0..<Suc (Suc 0)] = [0, Suc 0]"
  "[0..<Suc 0] = [0]"
  by (simp_all add: upt_rec)

lemma det_0_eval: "det 0 M = Fin 1"
  by simp

lemmas inv_eval =
  inv_def adjugate_def minor_def Let_def det_Suc_eval det_0_eval upt_evals del_at_simps

lemma eye7_val:
  "eye 7 = map (map Fin)
     [[1, 0, 0, 0, 0, 0, 0], [0, 1, 0, 0, 0, 0, 0], [0, 0, 1, 0, 0, 0, 0], [0, 0, 0, 1, 0, 0, 0],
      [0, 0, 0, 0, 1, 0, 0], [0, 0, 0, 0, 0, 1, 0], [0, 0, 0, 0, 0, 0, 1]]"
  by (simp add: eye_def upt_rec)

lemma kf_P0_val:
  "kf_P0 = map (map Fin)
     [[10, 0, 0, 0, 0, 0, 0], [0, 10, 0, 0, 0, 0, 0], [0, 0, 10, 0, 0, 0, 0], [0, 0, 0, 10, 0, 0, 0],
      [0, 0, 0, 0, 10000, 0, 0], [0, 0, 0, 0, 0, 10000, 0], [0, 0, 0, 0, 0, 0, 10000]]"
  by (simp add: kf_P0_def eye_def scale_block_def upt_rec)

lemma kf_Q_val:
  "kf_Q = map (map Fin)
     [[1, 0, 0, 0, 0, 0, 0], [0, 1, 0, 0, 0, 0, 0], [0, 0, 1, 0, 0, 0, 0], [0, 0, 0, 1, 0, 0, 0],
      [0, 0, 0, 0, 1 / 100, 0, 0], [0, 0, 0, 0, 0, 1 / 100, 0], [0, 0, 0, 0, 0, 0, 1 / 10000]]"
  by (simp add: kf_Q_def eye_def scale_block_def upt_rec)

lemma kf_R_val:
  "kf_R = map (map Fin) [[1, 0, 0, 0], [0, 1, 0, 0], [0, 0, 10, 0], [0, 0, 0, 10]]"
  by (simp add: kf_R_def eye_def upt_rec scale_block_def)

lemmas mat_eval =
  mat_vec_def mat_mul_def mat_add_def mat_sub_def vec_sub_def vec_add_def dot_def
  minus_npfloat_def kf_H_def kf_F_def kf_R_val kf_Q_val eye7_val

text \<open>
  A state with zero velocities is a fixed point of the prediction, and an update with
  the box the state stands for leaves the state as it is.
\<close>

lemma predict_cov0:
  "KalmanFilter_predict \<lparr>kf_x = [Fin a, Fin b, Fin c, Fin d, Fin 0, Fin 0, Fin 0], kf_P = kf_P0\<rparr>
   = \<lparr>kf_x = [Fin a, Fin b, Fin c, Fin d, Fin 0, Fin 0, Fin 0], kf_P = cov1\<rparr>"
  by (simp add: KalmanFilter_predict_def kf_P0_val cov1_def mat_eval)

lemma update_cov1:
  "KalmanFilter_update \<lparr>kf_x = [Fin a, Fin b, Fin c, Fin d, Fin 0, Fin 0, Fin 0], kf_P = cov1\<rparr>
     [Fin a, Fin b, Fin c, Fin d]
   = Inr \<lparr>kf_x = [Fin a, Fin b, Fin c, Fin d, Fin 0, Fin 0, Fin 0], kf_P = cov2\<rparr>"
  by (simp add: KalmanFilter_update_def cov1_def cov2_def mat_eval inv_eval
        del: det.simps(2) upt_Suc)

lemma predict_cov2:
  "KalmanFilter_predict \<lparr>kf_x = [Fin a, Fin b, Fin c, Fin d, Fin 0, Fin 0, Fin 0], kf_P = cov2\<rparr>
   = \<lparr>kf_x = [Fin a, Fin b, Fin c, Fin d, Fin 0, Fin 0, Fin 0], kf_P = cov3\<rparr>"
  by (simp add: KalmanFilter_predict_def cov2_def cov3_def mat_eval)

lemma update_cov3:
  "KalmanFilter_update \<lparr>kf_x = [Fin a, Fin b, Fin c, Fin d, Fin 0, Fin 0, Fin 0], kf_P = cov3\<rparr>
     [Fin a, Fin b, Fin c, Fin d]
   = Inr \<lparr>kf_x = [Fin a, Fin b, Fin c, Fin d, Fin 0, Fin 0, Fin 0], kf_P = cov4\<rparr>"
  by (simp add: KalmanFilter_update_def cov3_def cov4_def mat_eval inv_eval
        del: det.simps(2) upt_Suc)

subsection \<open>A track at rest\<close>

lemma z_of_box:
  assumes "b < d" "x1 B = Fin a" "y1 B = Fin b" "x2 B = Fin c" "y2 B = Fin d"
  shows "convert_bbox_to_z B = take 4 (rest_state a b c d)"
  using assms by (simp add: convert_bbox_to_z_def rest_state_def Let_def minus_npfloat_def)

lemma init_rest:
  assumes "b < d" "x1 B = Fin a" "y1 B = Fin b" "x2 B = Fin c" "y2 B = Fin d"
  shows "KalmanBoxTracker_init n B cf cl =
    (\<lparr>kf = \<lparr>kf_x = rest_state a b c d, kf_P = kf_P0\<rparr>, time_since_update = 0, trk_id = n,
      history = [], hits = 0, hit_streak = 0, age = 0, conf = cf, cls = cl\<rparr>, n + 1)"
  using assms
  by (simp add: KalmanBoxTracker_init_def convert_bbox_to_z_def rest_state_def Let_def minus_npfloat_def)

lemma bbox_of_rest:
  assumes "a < c" "b < d"
  shows "convert_x_to_bbox (rest_state a b c d) = \<lparr>x1 = Fin a, y1 = Fin b, x2 = Fin c, y2 = Fin d\<rparr>"
proof -
  have "convert_x_to_bbox (rest_state a b c d) =
        convert_x_to_bbox (convert_bbox_to_z \<lparr>x1 = Fin a, y1 = Fin b, x2 = Fin c, y2 = Fin d\<rparr>)"
    using assms by (simp add: convert_x_to_bbox_def convert_bbox_to_z_def rest_state_def Let_def minus_npfloat_def)
  then show ?thesis using bbox_roundtrip [OF assms] by simp
qed

lemma predict_rest:
  assumes "a < c" "b < d" and P: "(P, P') = (kf_P0, cov1) \<or> (P, P') = (cov2, cov3)"
    and k: "kf trk = \<lparr>kf_x = rest_state a b c d, kf_P = P\<rparr>"
  shows "KalmanBoxTracker_predict trk =
    (trk\<lparr>kf := \<lparr>kf_x = rest_state a b c d, kf_P = P'\<rparr>,
         age := age trk + 1,
         hit_streak := (if time_since_update trk > 0 then 0 else hit_streak trk),
         time_since_update := time_since_update trk + 1,
         history := history trk @ [\<lparr>x1 = Fin a, y1 = Fin b, x2 = Fin c, y2 = Fin d\<rparr>]\<rparr>,
     \<lparr>x1 = Fin a, y1 = Fin b, x2 = Fin c, y2 = Fin d\<rparr>)"
proof -
  have pos: "0 < (c - a) * (d - b)" using assms by simp
  have g: "\<not> (rest_state a b c d ! 6 + rest_state a b c d ! 2 \<le> Fin 0)"
    using pos by (simp add: rest_state_def not_le)
  have kp: "KalmanFilter_predict \<lparr>kf_x = rest_state a b c d, kf_P = P\<rparr>
            = \<lparr>kf_x = rest_state a b c d, kf_P = P'\<rparr>"
    using P predict_cov0 predict_cov2 by (auto simp: rest_state_def)
  show ?thesis
    using g kp bbox_of_rest [OF assms(1,2)]
    by (simp add: KalmanBoxTracker_predict_def Let_def k)
qed

lemma update_rest:
  assumes "a < c" "b < d" and P: "(P, P') = (cov1, cov2) \<or> (P, P') = (cov3, cov4)"
    and k: "kf trk = \<lparr>kf_x = rest_state a b c d, kf_P = P\<rparr>"
    and B: "x1 B = Fin a" "y1 B = Fin b" "x2 B = Fin c" "y2 B = Fin d"
  shows "KalmanBoxTracker_update trk B =
    Inr (trk\<lparr>time_since_update := 0, history := [], hits := hits trk + 1,
              hit_streak := hit_streak trk + 1,
              kf := \<lparr>kf_x = rest_state a b c d, kf_P = P'\<rparr>\<rparr>)"
proof -
  have ku: "KalmanFilter_update \<lparr>kf_x = rest_state a b c d, kf_P = P\<rparr> (take 4 (rest_state a b c d))
            = Inr \<lparr>kf_x = rest_state a b c d, kf_P = P'\<rparr>"
    using P update_cov1 update_cov3 by (auto simp: rest_state_def)
  show ?thesis
    using ku by (simp add: KalmanBoxTracker_update_def k z_of_box [OF assms(2) B])
qed

lemma predict_rest_rec:
  assumes "a < c" "b < d" and P: "(P, P') = (kf_P0, cov1) \<or> (P, P') = (cov2, cov3)"
  shows "KalmanBoxTracker_predict
           \<lparr>kf = \<lparr>kf_x = rest_state a b c d, kf_P = P\<rparr>, time_since_update = t, trk_id = i,
            history = h, hits = n, hit_streak = s, age = g, conf = cf, cls = cl\<rparr> =
         (\<lparr>kf = \<lparr>kf_x = rest_state a b c d, kf_P = P'\<rparr>, time_since_update = t + 1, trk_id = i,
           history = h @ [\<lparr>x1 = Fin a, y1 = Fin b, x2 = Fin c, y2 = Fin d\<rparr>], hits = n,
           hit_streak = (if t > 0 then 0 else s), age = g + 1, conf = cf, cls = cl\<rparr>,
          \<lparr>x1 = Fin a, y1 = Fin b, x2 = Fin c, y2 = Fin d\<rparr>)"
  by (subst predict_rest [OF assms, where trk = "\<lparr>kf = \<lparr>kf_x = rest_state a b c d, kf_P = P\<rparr>,
        time_since_update = t, trk_id = i, history = h, hits = n, hit_streak = s, age = g,
        conf = cf, cls = cl\<rparr>"]) simp_all

lemma update_rest_rec:
  assumes "a < c" "b < d" and P: "(P, P') = (cov1, cov2) \<or> (P, P') = (cov3, cov4)"
    and B: "x1 B = Fin a" "y1 B = Fin b" "x2 B = Fin c" "y2 B = Fin d"
  shows "KalmanBoxTracker_update
           \<lparr>kf = \<lparr>kf_x = rest_state a b c d, kf_P = P\<rparr>, time_since_update = t, trk_id = i,
            history = h, hits = n, hit_streak = s, age = g, conf = cf, cls = cl\<rparr> B =
         Inr \<lparr>kf = \<lparr>kf_x = rest_state a b c d, kf_P = P'\<rparr>, time_since_update = 0, trk_id = i,
              history = [], hits = n + 1, hit_streak = s + 1, age = g, conf = cf, cls = cl\<rparr>"
  by (subst update_rest [OF assms(1,2) P _ B, where trk = "\<lparr>kf = \<lparr>kf_x = rest_state a b c d, kf_P = P\<rparr>,
        time_since_update = t, trk_id = i, history = h, hits = n, hit_streak = s, age = g,
        conf = cf, cls = cl\<rparr>"]) simp_all

lemmas predict_rest0 = predict_rest_rec [where P = kf_P0 and P' = cov1, simplified]
lemmas predict_rest2 = predict_rest_rec [where P = cov2 and P' = cov3, simplified]
lemmas update_rest1 = update_rest_rec [where P = cov1 and P' = cov2, simplified]
lemmas update_rest3 = update_rest_rec [where P = cov3 and P' = cov4, simplified]

text \<open>
  C3, as stated: for every track, after any sequence of \<open>predict\<close> and \<open>update\<close>
  calls, a positive \<open>time_since_update\<close> implies \<open>hit_streak = 0\<close>. This fails: a
  track that is created, predicted, matched and predicted again (what the orchestrator
  does in frames 1 to 3) has \<open>time_since_update = 1\<close> and \<open>hit_streak = 1\<close>; when no
  detection matches it in frame 3 and \<open>max_age \<ge> 1\<close>, it stays live in that state.
  \<open>predict\<close> resets the streak only when the track had already missed a frame.
\<close>

theorem C3_counterexample:
  "(case run_calls
           (fst (KalmanBoxTracker_init 0 \<lparr>x1 = Fin 0, y1 = Fin 0, x2 = Fin 10, y2 = Fin 10\<rparr>
                   (Fin (9 / 10)) 2))
           [Predict, Update \<lparr>x1 = Fin 0, y1 = Fin 0, x2 = Fin 10, y2 = Fin 10\<rparr>, Predict] of
      Inl e \<Rightarrow> False
    | Inr trk \<Rightarrow> time_since_update trk = 1 \<and> hit_streak trk = 1)"
  by (simp add: init_rest [where a = 0 and b = 0 and c = 10 and d = 10]
        predict_rest0 update_rest1 predict_rest2)

text \<open>
  C3, amended: for every track, after any sequence of \<open>predict\<close> and \<open>update\<close> calls
  since its creation, a \<open>time_since_update\<close> greater than 1 implies \<open>hit_streak = 0\<close>.
\<close>

theorem C3_streak_exclusive:
  "run_calls (fst (KalmanBoxTracker_init count bbox cf cl)) cs = Inr trk \<Longrightarrow>
   1 < time_since_update trk \<Longrightarrow> hit_streak trk = 0"
  using run_calls_streak [of "fst (KalmanBoxTracker_init count bbox cf cl)" cs trk]
  by (simp add: KalmanBoxTracker_init_def)

theorem C3_streak_exclusive_witness:
  "(case run_calls
           (fst (KalmanBoxTracker_init 0 \<lparr>x1 = Fin 0, y1 = Fin 0, x2 = Fin 10, y2 = Fin 10\<rparr>
                   (Fin (9 / 10)) 2))
           [Predict, Update \<lparr>x1 = Fin 0, y1 = Fin 0, x2 = Fin 10, y2 = Fin 10\<rparr>, Predict, Predict] of
      Inl e \<Rightarrow> False
    | Inr trk \<Rightarrow> time_since_update trk = 2 \<and> hit_streak trk = 0)"
proof -
  let ?B = "\<lparr>x1 = Fin 0, y1 = Fin 0, x2 = Fin 10, y2 = Fin 10\<rparr>"
  let ?r = "run_calls (fst (KalmanBoxTracker_init 0 ?B (Fin (9 / 10)) 2))
              [Predict, Update ?B, Predict, Predict]"
  obtain trk where r: "?r = Inr trk" and t: "time_since_update trk = 2"
    by (simp add: init_rest [where a = 0 and b = 0 and c = 10 and d = 10]
          predict_rest0 update_rest1 predict_rest2 predict_fields)
  from C3_streak_exclusive [OF r] t have "hit_streak trk = 0" by simp
  with r t show ?thesis by simp
qed

text \<open>
  C8: \<open>update\<close> leaves the identity, the class and the confidence of a track as they
  are; and after any sequence of \<open>predict\<close> and \<open>update\<close> calls, however many
  matches it holds, a track still has the identity it was created with and the class
  and the score of the detection that created it, which are the last three entries
  of the row reported for it.
\<close>

theorem C8_identity_frame:
  "(KalmanBoxTracker_update trk bbox = Inr trk' \<longrightarrow>
      trk_id trk' = trk_id trk \<and> cls trk' = cls trk \<and> conf trk' = conf trk) \<and>
   (run_calls (fst (KalmanBoxTracker_init count bbox0 cf cl)) cs = Inr trk'' \<longrightarrow>
      trk_id trk'' = count \<and> cls trk'' = cl \<and> conf trk'' = cf \<and>
      report_row trk'' ! 4 = Fin (of_int (count + 1)) \<and>
      report_row trk'' ! 5 = Fin (of_int cl) \<and> report_row trk'' ! 6 = cf)"
proof (intro conjI impI)
  assume "run_calls (fst (KalmanBoxTracker_init count bbox0 cf cl)) cs = Inr trk''"
  from run_calls_identity [OF this]
  have i: "trk_id trk'' = count" "cls trk'' = cl" "conf trk'' = cf"
    by (simp_all add: KalmanBoxTracker_init_def)
  then show "trk_id trk'' = count" "cls trk'' = cl" "conf trk'' = cf"
    "report_row trk'' ! 4 = Fin (of_int (count + 1))"
    "report_row trk'' ! 5 = Fin (of_int cl)" "report_row trk'' ! 6 = cf"
    by (simp_all add: report_row_def Let_def)
qed (auto dest: update_fields(1,2,3))

theorem C8_identity_frame_witness:
  "(case KalmanBoxTracker_update
           \<lparr>kf = \<lparr>kf_x = rest_state 0 0 10 10, kf_P = cov1\<rparr>, time_since_update = 1, trk_id = 7,
            history = [], hits = 0, hit_streak = 0, age = 1, conf = Fin (9 / 10), cls = 2\<rparr>
           \<lparr>x1 = Fin 0, y1 = Fin 0, x2 = Fin 10, y2 = Fin 10, score = Fin (1 / 2), class_id = Fin 5\<rparr> of
      Inl e \<Rightarrow> False
    | Inr trk' \<Rightarrow> trk_id trk' = 7 \<and> cls trk' = 2 \<and> conf trk' = Fin (9 / 10)) \<and>
   (case run_calls
           (fst (KalmanBoxTracker_init 7 \<lparr>x1 = Fin 0, y1 = Fin 0, x2 = Fin 10, y2 = Fin 10\<rparr>
                   (Fin (9 / 10)) 2))
           [Predict, Update \<lparr>x1 = Fin 0, y1 = Fin 0, x2 = Fin 10, y2 = Fin 10\<rparr>,
            Predict, Update \<lparr>x1 = Fin 0, y1 = Fin 0, x2 = Fin 10, y2 = Fin 10\<rparr>] of
      Inl e \<Rightarrow> False
    | Inr trk \<Rightarrow> hits trk = 2 \<and> trk_id trk = 7 \<and> conf trk = Fin (9 / 10) \<and>
        report_row trk ! 6 = Fin (9 / 10))"
proof -
  let ?T = "\<lparr>kf = \<lparr>kf_x = rest_state 0 0 10 10, kf_P = cov1\<rparr>, time_since_update = 1, trk_id = 7,
            history = [], hits = 0, hit_streak = 0, age = 1, conf = Fin (9 / 10), cls = 2\<rparr>"
  let ?D = "\<lparr>x1 = Fin 0, y1 = Fin 0, x2 = Fin 10, y2 = Fin 10, score = Fin (1 / 2), class_id = Fin 5\<rparr>"
  let ?B = "\<lparr>x1 = Fin 0, y1 = Fin 0, x2 = Fin 10, y2 = Fin 10\<rparr>"
  let ?cs = "[Predict, Update ?B, Predict, Update ?B]"
  obtain trk' where u: "KalmanBoxTracker_update ?T ?D = Inr trk'"
    by (simp add: update_rest1)
  obtain trk where r: "run_calls (fst (KalmanBoxTracker_init 7 ?B (Fin (9 / 10)) 2)) ?cs = Inr trk"
    and h: "hits trk = 2"
    by (simp add: init_rest [where a = 0 and b = 0 and c = 10 and d = 10]
          predict_rest0 update_rest1 predict_rest2 update_rest3)
  from C8_identity_frame [of ?T ?D trk' 7 ?B "Fin (9 / 10)" 2 ?cs trk] u r h
  show ?thesis by simp
qed

subsection \<open>The associator\<close>

lemma filter_matches_result:
  "filter_matches iou th ms (M, UD, UT) = Inr (M', UD', UT') \<Longrightarrow>
   M' = M @ filter (\<lambda>m. \<not> iou ! fst m ! snd m < th) ms \<and>
   UD' = UD @ map fst (filter (\<lambda>m. iou ! fst m ! snd m < th) ms) \<and>
   UT' = UT @ map snd (filter (\<lambda>m. iou ! fst m ! snd m < th) ms) \<and>
   (\<forall>m \<in> set ms. fst m < length iou \<and> snd m < length (iou ! fst m))"
proof (induction ms arbitrary: M UD UT)
  case Nil
  then show ?case by simp
next
  case (Cons m ms)
  from Cons.prems have r: "fst m < length iou" "snd m < length (iou ! fst m)"
    by (auto simp: getitem_def split: if_splits sum.splits)
  show ?case
  proof (cases "iou ! fst m ! snd m < th")
    case True
    with Cons.prems r
    have "filter_matches iou th ms (M, UD @ [fst m], UT @ [snd m]) = Inr (M', UD', UT')"
      by (simp add: getitem_def)
    from Cons.IH [OF this] True r show ?thesis by simp
  next
    case False
    with Cons.prems r
    have "filter_matches iou th ms (M @ [m], UD, UT) = Inr (M', UD', UT')"
      by (simp add: getitem_def)
    from Cons.IH [OF this] False r show ?thesis by simp
  qed
qed

lemma partition_indices:
  fixes f :: "'a \<Rightarrow> nat"
  assumes d: "distinct (map f mi)" and r: "\<forall>m \<in> set mi. f m < N"
  shows "distinct (map f (filter (\<lambda>m. \<not> L m) mi) @
                   (filter (\<lambda>d. d \<notin> set (map f mi)) [0..<N] @ map f (filter L mi)))"
    and "set (map f (filter (\<lambda>m. \<not> L m) mi) @
              (filter (\<lambda>d. d \<notin> set (map f mi)) [0..<N] @ map f (filter L mi))) = {..<N}"
proof -
  have inj: "inj_on f (set mi)" using d by (simp add: distinct_map)
  have d1: "distinct (map f (filter (\<lambda>m. \<not> L m) mi))" "distinct (map f (filter L mi))"
    using d by (simp_all add: distinct_map_filter)
  have dj: "set (map f (filter (\<lambda>m. \<not> L m) mi)) \<inter> set (map f (filter L mi)) = {}"
    using inj by (auto simp: inj_on_def)
  show "distinct (map f (filter (\<lambda>m. \<not> L m) mi) @
                   (filter (\<lambda>d. d \<notin> set (map f mi)) [0..<N] @ map f (filter L mi)))"
    using d1 dj by auto
  show "set (map f (filter (\<lambda>m. \<not> L m) mi) @
              (filter (\<lambda>d. d \<notin> set (map f mi)) [0..<N] @ map f (filter L mi))) = {..<N}"
    using r by auto
qed

lemma nonzero_count_le_sum:
  "length (filter (\<lambda>(j, v). v \<noteq> 0) (enumerate m (r :: nat list))) \<le> sum_list r"
proof (induction r arbitrary: m)
  case Nil
  then show ?case by simp
next
  case (Cons a r)
  from Cons.IH [of "Suc m"] show ?case by auto
qed

lemma np_where_rows:
  assumes "\<forall>row \<in> set a. sum_list row \<le> (1::nat)"
  shows "distinct (map fst (concat (map (\<lambda>(i, row). map (\<lambda>(j, v). (i, j))
            (filter (\<lambda>(j, v). v \<noteq> 0) (enumerate 0 row))) (enumerate n a)))) \<and>
         (\<forall>p \<in> set (concat (map (\<lambda>(i, row). map (\<lambda>(j, v). (i, j))
            (filter (\<lambda>(j, v). v \<noteq> 0) (enumerate 0 row))) (enumerate n a))). n \<le> fst p)"
  using assms
proof (induction a arbitrary: n)
  case Nil
  then show ?case by simp
next
  case (Cons r rs)
  have "length (filter (\<lambda>(j, v). v \<noteq> 0) (enumerate 0 r)) \<le> 1"
    using nonzero_count_le_sum [of 0 r] Cons.prems by simp
  then have d: "distinct (map fst (map (\<lambda>(j, v). (n, j)) (filter (\<lambda>(j, v). v \<noteq> 0) (enumerate 0 r))))"
    by (cases "filter (\<lambda>(j, v). v \<noteq> 0) (enumerate 0 r)") auto
  from Cons.IH [of "Suc n"] Cons.prems d show ?case
    by (auto simp: split_def in_set_enumerate_eq)
qed


lemma np_where_mem:
  "p \<in> set (concat (map (\<lambda>(i, row). map (\<lambda>(j, v). (i, j))
            (filter (\<lambda>(j, v). v \<noteq> (0::nat)) (enumerate 0 row))) (enumerate n a))) \<Longrightarrow>
   \<exists>row \<in> set a. snd p < length row \<and> row ! snd p \<noteq> 0"
  apply (auto simp: in_set_enumerate_eq)
  subgoal for i j by (rule bexI [of _ "a ! (i - n)"]) auto
  done

lemma np_where_cols:
  assumes "\<forall>j. sum_list (map (\<lambda>r. if j < length r then r ! j else 0) a) \<le> (1::nat)"
  shows "distinct (map snd (concat (map (\<lambda>(i, row). map (\<lambda>(j, v). (i, j))
            (filter (\<lambda>(j, v). v \<noteq> 0) (enumerate 0 row))) (enumerate n a))))"
  using assms
proof (induction a arbitrary: n)
  case Nil
  then show ?case by simp
next
  case (Cons r rs)
  let ?W = "\<lambda>n a. concat (map (\<lambda>(i, row). map (\<lambda>(j, v). (i, j))
            (filter (\<lambda>(j, v). v \<noteq> (0::nat)) (enumerate 0 row))) (enumerate n a))"
  let ?nz = "map fst (filter (\<lambda>(j, v). v \<noteq> 0) (enumerate 0 r))"
  have tl: "\<forall>j. sum_list (map (\<lambda>r. if j < length r then r ! j else 0) rs) \<le> 1"
  proof
    fix j
    from Cons.prems have "sum_list (map (\<lambda>r. if j < length r then r ! j else 0) (r # rs)) \<le> 1" ..
    then show "sum_list (map (\<lambda>r. if j < length r then r ! j else 0) rs) \<le> 1" by simp
  qed
  have d1: "distinct ?nz"
    by (rule distinct_map_filter) simp
  have dj: "set ?nz \<inter> set (map snd (?W (Suc n) rs)) = {}"
  proof (rule ccontr)
    assume "\<not> ?thesis"
    then obtain j where j1: "j \<in> set ?nz" and j2: "j \<in> set (map snd (?W (Suc n) rs))" by blast
    define g where "g = (\<lambda>r :: nat list. if j < length r then r ! j else 0)"
    from j1 have a: "j < length r" "r ! j \<noteq> 0" by (auto simp: in_set_enumerate_eq)
    from j2 [unfolded set_map] obtain p where p: "p \<in> set (?W (Suc n) rs)" "snd p = j" by blast
    from np_where_mem [OF p(1)] p(2)
    obtain r' where r': "r' \<in> set rs" "j < length r'" "r' ! j \<noteq> 0" by auto
    from r'(1) have "g r' \<in> g ` set rs" by (rule imageI)
    then have "g r' \<le> sum_list (map g rs)" by (intro member_le_sum_list) auto
    moreover from Cons.prems have "sum_list (map g (r # rs)) \<le> 1" unfolding g_def ..
    ultimately show False using a r'(2,3) by (simp add: g_def)
  qed
  have eq: "map snd (?W n (r # rs)) = ?nz @ map snd (?W (Suc n) rs)"
    by (simp add: split_def comp_def)
  from d1 dj Cons.IH [OF tl, of "Suc n"]
  have "distinct (?nz @ map snd (?W (Suc n) rs))"
    unfolding distinct_append by blast
  then show ?case by (simp only: eq)
qed

lemma np_max_ge: "x \<in> set xs \<Longrightarrow> x \<le> np_max xs"
proof (cases xs)
  case Nil
  then show "x \<in> set xs \<Longrightarrow> ?thesis" by simp
next
  case (Cons y ys)
  then have "np_max xs = Max (set xs)" using Max.set_eq_fold [of y ys] by (simp add: np_max_def)
  then show "x \<in> set xs \<Longrightarrow> ?thesis" by simp
qed

lemma length_le_transpose: "r \<in> set a \<Longrightarrow> length r \<le> length (transpose a)"
  unfolding length_transpose by (induction a) auto

lemma col_sums_transpose:
  assumes "\<forall>x \<in> set (map sum_list (transpose a)). x \<le> (1::nat)"
  shows "sum_list (map (\<lambda>r. if j < length r then r ! j else 0) a) \<le> 1"
proof (cases "j < length (transpose a)")
  case True
  have "sum_list (map (\<lambda>r. if j < length r then r ! j else 0) a)
        = sum_list (map (\<lambda>r. r ! j) (filter (\<lambda>r. j < length r) a))"
    by (induction a) auto
  also have "\<dots> = sum_list (transpose a ! j)" using True by (simp add: nth_transpose)
  also have "\<dots> \<le> 1" using assms True by simp
  finally show ?thesis .
next
  case False
  then have "\<forall>r \<in> set a. \<not> j < length r"
    using length_le_transpose by fastforce
  then have "sum_list (map (\<lambda>r. if j < length r then r ! j else 0) a) = 0" by (induction a) auto
  then show ?thesis by linarith
qed

lemma matching_step_distinct:
  assumes m: "matching_step lsa iou th = Inr mi"
    and ok: "solver_ok lsa (map (map uminus) iou)"
  shows "distinct (map fst mi) \<and> distinct (map snd mi)"
proof (cases "0 < length iou")
  case False
  with m show ?thesis by (simp add: matching_step_def)
next
  case True
  define a where "a = map (map (\<lambda>v. if v > th then 1 else (0::nat))) iou"
  show ?thesis
  proof (cases "np_max (map sum_list a) = 1 \<and> np_max (map sum_list (transpose a)) = 1")
    case fast: True
    with m True have mi: "mi = np_where a"
      by (simp add: matching_step_def a_def Let_def)
    have rows: "\<forall>row \<in> set a. sum_list row \<le> 1"
      using fast np_max_ge [of _ "map sum_list a"] by fastforce
    have "\<forall>x \<in> set (map sum_list (transpose a)). x \<le> 1"
      using fast np_max_ge [of _ "map sum_list (transpose a)"] by fastforce
    then have cols: "\<forall>j. sum_list (map (\<lambda>r. if j < length r then r ! j else 0) a) \<le> 1"
      using col_sums_transpose by blast
    from np_where_rows [OF rows, of 0] np_where_cols [OF cols, of 0]
    show ?thesis by (simp add: mi np_where_def)
  next
    case slow: False
    with m True obtain x y where xy: "lsa (map (map uminus) iou) = Inr (x, y)" and mi: "mi = zip x y"
      by (auto simp: matching_step_def a_def Let_def linear_assignment_def
               split: sum.splits if_splits)
    from ok xy have "distinct x" "distinct y" by (simp_all add: solver_ok_def)
    then show ?thesis by (simp add: mi map_fst_zip_take map_snd_zip_take)
  qed
qed

text \<open>
  Claim C6. Whenever the associator returns, its three outputs partition the indices:
  the detection indices of \<open>matches\<close> followed by \<open>unmatched_detections\<close> list every
  index below the number of detections exactly once, and the track indices of
  \<open>matches\<close> followed by \<open>unmatched_trackers\<close> list every index below the number of
  track boxes exactly once. In particular no index is in two of the outputs and the
  matched pairs are unique on both sides. The solver is any function that returns no
  row index and no column index twice.
\<close>

theorem C6_partition:
  assumes ok: "solver_ok lsa (map (map uminus) (iou_batch detections trks))"
    and r: "associate_detections_to_trackers lsa detections trks th
            = Inr (matches, unmatched_detections, unmatched_trackers)"
  shows "distinct (map fst matches @ unmatched_detections) \<and>
         set (map fst matches @ unmatched_detections) = {..<length detections} \<and>
         distinct (map snd matches @ unmatched_trackers) \<and>
         set (map snd matches @ unmatched_trackers) = {..<length trks}"
proof (cases "trks = []")
  case True
  with r show ?thesis by (auto simp: associate_detections_to_trackers_def)
next
  case False
  define iou where "iou = iou_batch detections trks"
  define L where "L = (\<lambda>m :: nat \<times> nat. iou ! fst m ! snd m < th)"
  from r False obtain mi where ms: "matching_step lsa iou th = Inr mi"
    and fm: "filter_matches iou th mi
               ([], filter (\<lambda>d. d \<notin> set (map fst mi)) [0..<length detections],
                filter (\<lambda>t. t \<notin> set (map snd mi)) [0..<length trks])
             = Inr (matches, unmatched_detections, unmatched_trackers)"
    by (auto simp: associate_detections_to_trackers_def iou_def Let_def split: sum.splits)
  from matching_step_distinct [OF ms] ok
  have d: "distinct (map fst mi)" "distinct (map snd mi)" by (simp_all add: iou_def)
  from filter_matches_result [OF fm]
  have M: "matches = filter (\<lambda>m. \<not> L m) mi"
    and UD: "unmatched_detections =
               filter (\<lambda>d. d \<notin> set (map fst mi)) [0..<length detections] @ map fst (filter L mi)"
    and UT: "unmatched_trackers =
               filter (\<lambda>t. t \<notin> set (map snd mi)) [0..<length trks] @ map snd (filter L mi)"
    and rng: "\<forall>m \<in> set mi. fst m < length iou \<and> snd m < length (iou ! fst m)"
    by (simp_all add: L_def)
  have r1: "\<forall>m \<in> set mi. fst m < length detections"
    using rng by (simp add: iou_def iou_batch_def)
  have r2: "\<forall>m \<in> set mi. snd m < length trks"
    using rng by (auto simp: iou_def iou_batch_def)
  from partition_indices [OF d(1) r1, of L] partition_indices [OF d(2) r2, of L]
  show ?thesis by (simp only: M UD UT)
qed

theorem C6_partition_witness:
  "solver_ok linear_sum_assignment
     (map (map uminus)
        (iou_batch
           [\<lparr>x1 = Fin 0, y1 = Fin 0, x2 = Fin 10, y2 = Fin 10\<rparr>,
            \<lparr>x1 = Fin 0, y1 = Fin 0, x2 = Fin 1, y2 = Fin 10\<rparr>]
           [\<lparr>x1 = Fin 0, y1 = Fin 0, x2 = Fin 10, y2 = Fin 10\<rparr>,
            \<lparr>x1 = Fin 0, y1 = Fin 0, x2 = Fin 5, y2 = Fin 10\<rparr>])) \<and>
   associate_detections_to_trackers linear_sum_assignment
     [\<lparr>x1 = Fin 0, y1 = Fin 0, x2 = Fin 10, y2 = Fin 10\<rparr>,
      \<lparr>x1 = Fin 0, y1 = Fin 0, x2 = Fin 1, y2 = Fin 10\<rparr>]
     [\<lparr>x1 = Fin 0, y1 = Fin 0, x2 = Fin 10, y2 = Fin 10\<rparr>,
      \<lparr>x1 = Fin 0, y1 = Fin 0, x2 = Fin 5, y2 = Fin 10\<rparr>] (Fin (3 / 10))
   = Inr ([(0, 0)], [1], [1]) \<and>
   distinct (map fst [(0, 0)] @ [1 :: nat]) \<and> set (map fst [(0 :: nat, 0 :: nat)] @ [1]) = {..<2} \<and>
   distinct (map snd [(0, 0)] @ [1 :: nat]) \<and> set (map snd [(0 :: nat, 0 :: nat)] @ [1]) = {..<2}"
proof -
  let ?D = "[\<lparr>x1 = Fin 0, y1 = Fin 0, x2 = Fin 10, y2 = Fin 10\<rparr>,
             \<lparr>x1 = Fin 0, y1 = Fin 0, x2 = Fin 1, y2 = Fin 10\<rparr>]"
  let ?T = "[\<lparr>x1 = Fin 0, y1 = Fin 0, x2 = Fin 10, y2 = Fin 10\<rparr>,
             \<lparr>x1 = Fin 0, y1 = Fin 0, x2 = Fin 5, y2 = Fin 10\<rparr>]"
  have ok: "solver_ok linear_sum_assignment (map (map uminus) (iou_batch ?D ?T))"
    by code_simp
  have e: "associate_detections_to_trackers linear_sum_assignment ?D ?T (Fin (3 / 10))
           = Inr ([(0, 0)], [1], [1])"
    by code_simp
  from C6_partition [OF ok e] ok e show ?thesis by simp
qed

text \<open>
  What lines 203-219 do with the pairs of the matching step: a pair is rejected when
  its IoU is strictly less than the threshold, and it is kept otherwise.
\<close>

lemma low_iou_rejected:
  assumes r: "associate_detections_to_trackers lsa detections trks th
              = Inr (matches, unmatched_detections, unmatched_trackers)"
  shows "(\<forall>m \<in> set matches. \<not> iou_batch detections trks ! fst m ! snd m < th) \<and>
         (trks \<noteq> [] \<longrightarrow>
           (\<exists>mi. matching_step lsa (iou_batch detections trks) th = Inr mi \<and>
             (\<forall>m \<in> set mi.
                if iou_batch detections trks ! fst m ! snd m < th
                then fst m \<in> set unmatched_detections \<and> snd m \<in> set unmatched_trackers \<and>
                     m \<notin> set matches
                else m \<in> set matches)))"
proof (cases "trks = []")
  case True
  with r show ?thesis by (auto simp: associate_detections_to_trackers_def)
next
  case False
  define iou where "iou = iou_batch detections trks"
  from r False obtain mi where ms: "matching_step lsa iou th = Inr mi"
    and fm: "filter_matches iou th mi
               ([], filter (\<lambda>d. d \<notin> set (map fst mi)) [0..<length detections],
                filter (\<lambda>t. t \<notin> set (map snd mi)) [0..<length trks])
             = Inr (matches, unmatched_detections, unmatched_trackers)"
    by (auto simp: associate_detections_to_trackers_def iou_def Let_def split: sum.splits)
  from filter_matches_result [OF fm]
  have M: "matches = filter (\<lambda>m. \<not> iou ! fst m ! snd m < th) mi"
    and UD: "unmatched_detections =
               filter (\<lambda>d. d \<notin> set (map fst mi)) [0..<length detections] @
               map fst (filter (\<lambda>m. iou ! fst m ! snd m < th) mi)"
    and UT: "unmatched_trackers =
               filter (\<lambda>t. t \<notin> set (map snd mi)) [0..<length trks] @
               map snd (filter (\<lambda>m. iou ! fst m ! snd m < th) mi)"
    by simp_all
  have "\<forall>m \<in> set mi.
          if iou ! fst m ! snd m < th
          then fst m \<in> set unmatched_detections \<and> snd m \<in> set unmatched_trackers \<and>
               m \<notin> set matches
          else m \<in> set matches"
    by (auto simp: M UD UT)
  with ms M False show ?thesis unfolding iou_def by auto
qed

text \<open>
  Claim C2. The claim rejects every pair of the matching step whose IoU is at most the
  threshold, and the fast path agrees with it: line 195 takes a pair only when its IoU
  is strictly greater than the threshold. The filter of line 215 tests \<open><\<close> instead, so
  a pair of the optimal assignment whose IoU equals the threshold is returned as a
  match. With the threshold \<open>1/2\<close>, the detection \<open>[100, 100, 110, 110]\<close> and the track
  box \<open>[100, 100, 105, 110]\<close> have IoU \<open>1/2\<close>: alone in the frame they are matched, and
  together with a second pair of IoU \<open>9/10\<close>, where the fast path applies, they are
  left unmatched. With the threshold \<open>0\<close>, the detection \<open>[500, 500, 510, 510]\<close> is
  matched to the track box \<open>[0, 0, 8, 10]\<close>, which it does not touch.
\<close>

theorem C2_threshold_pair_matched:
  "iou_batch [\<lparr>x1 = Fin 100, y1 = Fin 100, x2 = Fin 110, y2 = Fin 110\<rparr>]
     [\<lparr>x1 = Fin 100, y1 = Fin 100, x2 = Fin 105, y2 = Fin 110\<rparr>] = [[Fin (1 / 2)]] \<and>
   associate_detections_to_trackers linear_sum_assignment
     [\<lparr>x1 = Fin 100, y1 = Fin 100, x2 = Fin 110, y2 = Fin 110\<rparr>]
     [\<lparr>x1 = Fin 100, y1 = Fin 100, x2 = Fin 105, y2 = Fin 110\<rparr>] (Fin (1 / 2))
   = Inr ([(0, 0)], [], []) \<and>
   iou_batch
     [\<lparr>x1 = Fin 100, y1 = Fin 100, x2 = Fin 110, y2 = Fin 110\<rparr>,
      \<lparr>x1 = Fin 0, y1 = Fin 0, x2 = Fin 10, y2 = Fin 10\<rparr>]
     [\<lparr>x1 = Fin 100, y1 = Fin 100, x2 = Fin 105, y2 = Fin 110\<rparr>,
      \<lparr>x1 = Fin 0, y1 = Fin 0, x2 = Fin 9, y2 = Fin 10\<rparr>]
   = [[Fin (1 / 2), Fin 0], [Fin 0, Fin (9 / 10)]] \<and>
   associate_detections_to_trackers linear_sum_assignment
     [\<lparr>x1 = Fin 100, y1 = Fin 100, x2 = Fin 110, y2 = Fin 110\<rparr>,
      \<lparr>x1 = Fin 0, y1 = Fin 0, x2 = Fin 10, y2 = Fin 10\<rparr>]
     [\<lparr>x1 = Fin 100, y1 = Fin 100, x2 = Fin 105, y2 = Fin 110\<rparr>,
      \<lparr>x1 = Fin 0, y1 = Fin 0, x2 = Fin 9, y2 = Fin 10\<rparr>] (Fin (1 / 2))
   = Inr ([(1, 1)], [0], [0]) \<and>
   iou_batch [\<lparr>x1 = Fin 500, y1 = Fin 500, x2 = Fin 510, y2 = Fin 510\<rparr>]
     [\<lparr>x1 = Fin 0, y1 = Fin 0, x2 = Fin 8, y2 = Fin 10\<rparr>] = [[Fin 0]] \<and>
   associate_detections_to_trackers linear_sum_assignment
     [\<lparr>x1 = Fin 500, y1 = Fin 500, x2 = Fin 510, y2 = Fin 510\<rparr>]
     [\<lparr>x1 = Fin 0, y1 = Fin 0, x2 = Fin 8, y2 = Fin 10\<rparr>] (Fin 0)
   = Inr ([(0, 0)], [], [])"
  by code_simp


subsection \<open>A prediction with an infinite coordinate\<close>

text \<open>
  A track whose state has a positive area and the aspect ratio \<open>0\<close> predicts a box of
  width \<open>0\<close> and infinite height: \<open>w = sqrt (4 * 0) = 0\<close> and \<open>h = 4 / 0 = inf\<close>. The box
  has no NaN.
\<close>

lemma bbox_of_flat:
  "convert_x_to_bbox [Fin 5, Fin 5, Fin 4, Fin 0, Fin 0, Fin 0, Fin 0]
   = \<lparr>x1 = Fin 5, y1 = NInf, x2 = Fin 5, y2 = PInf\<rparr>"
  by (simp add: convert_x_to_bbox_def Let_def minus_npfloat_def inf_of_sign_def)

lemma predict_flat:
  "KalmanBoxTracker_predict
     \<lparr>kf = \<lparr>kf_x = [Fin 5, Fin 5, Fin 4, Fin 0, Fin 0, Fin 0, Fin 0], kf_P = kf_P0\<rparr>,
      time_since_update = t, trk_id = i, history = h, hits = n, hit_streak = s, age = g,
      conf = cf, cls = cl\<rparr> =
   (\<lparr>kf = \<lparr>kf_x = [Fin 5, Fin 5, Fin 4, Fin 0, Fin 0, Fin 0, Fin 0], kf_P = cov1\<rparr>,
     time_since_update = t + 1, trk_id = i,
     history = h @ [\<lparr>x1 = Fin 5, y1 = NInf, x2 = Fin 5, y2 = PInf\<rparr>], hits = n,
     hit_streak = (if t > 0 then 0 else s), age = g + 1, conf = cf, cls = cl\<rparr>,
    \<lparr>x1 = Fin 5, y1 = NInf, x2 = Fin 5, y2 = PInf\<rparr>)"
  using predict_cov0 [of 5 5 4 0]
  by (simp add: KalmanBoxTracker_predict_def Let_def bbox_of_flat)

lemma inv_S1:
  "inv (mat_add (mat_mul kf_H (mat_mul cov1 (transpose kf_H))) kf_R)
   = Inr (map (map Fin)
       [[1 / 10012, 0, 0, 0], [0, 1 / 10012, 0, 0], [0, 0, 1 / 10021, 0], [0, 0, 0, 1 / 21]])"
  by (simp add: cov1_def mat_eval inv_eval del: det.simps(2) upt_Suc)

lemma update_cov1_total:
  "\<exists>k. KalmanFilter_update \<lparr>kf_x = x, kf_P = cov1\<rparr> z = Inr k"
  by (simp add: KalmanFilter_update_def Let_def inv_S1)

lemma assoc_one:
  "associate_detections_to_trackers linear_sum_assignment
     [\<lparr>x1 = Fin 0, y1 = Fin 0, x2 = Fin 10, y2 = Fin 10, score = Fin (9 / 10), class_id = Fin 0\<rparr>]
     [\<lparr>x1 = Fin 0, y1 = Fin 0, x2 = Fin 10, y2 = Fin 10\<rparr>] (Fin (3 / 10))
   = Inr ([(0, 0)], [], [])"
  by code_simp

lemma upt2: "[0..<Suc (Suc 0)] = [0, Suc 0]" "[0..<2] = [0, 1]"
  by (simp_all add: upt_rec)

lemma advance_flat:
  assumes k: "KalmanFilter_update
      \<lparr>kf_x = [Fin 5, Fin 5, Fin 4, Fin 0, Fin 0, Fin 0, Fin 0], kf_P = cov1\<rparr>
      (convert_bbox_to_z \<lparr>x1 = Fin 0, y1 = Fin 0, x2 = Fin 10, y2 = Fin 10, score = Fin (9 / 10), class_id = Fin 0\<rparr>) = Inr k"
  shows "advance_tracks linear_sum_assignment 2
      \<lparr>max_age = 1, min_hits = 3, iou_threshold = Fin (3 / 10),
       trackers =
         [\<lparr>kf = \<lparr>kf_x = [Fin 5, Fin 5, Fin 4, Fin 0, Fin 0, Fin 0, Fin 0], kf_P = kf_P0\<rparr>,
           time_since_update = 0, trk_id = 0, history = [], hits = 0, hit_streak = 0, age = 0,
           conf = Fin (9 / 10), cls = 0\<rparr>,
          \<lparr>kf = \<lparr>kf_x = rest_state 0 0 10 10, kf_P = kf_P0\<rparr>,
           time_since_update = 0, trk_id = 1, history = [], hits = 0, hit_streak = 0, age = 0,
           conf = Fin (9 / 10), cls = 0\<rparr>],
       frame_count = 1\<rparr>
      [\<lparr>x1 = Fin 0, y1 = Fin 0, x2 = Fin 10, y2 = Fin 10, score = Fin (9 / 10), class_id = Fin 0\<rparr>]
    = Inr (\<lparr>max_age = 1, min_hits = 3, iou_threshold = Fin (3 / 10),
       trackers =
         [\<lparr>kf = k,
           time_since_update = 0, trk_id = 0, history = [], hits = 1, hit_streak = 1, age = 1,
           conf = Fin (9 / 10), cls = 0\<rparr>,
          \<lparr>kf = \<lparr>kf_x = rest_state 0 0 10 10, kf_P = cov1\<rparr>,
           time_since_update = 1, trk_id = 1,
           history = [\<lparr>x1 = Fin 0, y1 = Fin 0, x2 = Fin 10, y2 = Fin 10\<rparr>], hits = 0,
           hit_streak = 0, age = 1, conf = Fin (9 / 10), cls = 0\<rparr>],
       frame_count = 2\<rparr>, 2)"
  by (simp add: advance_tracks_def Let_def predict_flat predict_rest0 upt2
        box_has_nan_def box_is_finite_def assoc_one getitem_def KalmanBoxTracker_update_def k)

text \<open>
  Claim C4. A track whose predicted box has an infinite coordinate and no NaN is left
  out of the association input by \<^verbatim>\<open>masked_invalid\<close> (line 263) but is not removed
  from the live tracks, because line 261 tests \<^verbatim>\<open>np.isnan\<close> only. The rows of
  \<^verbatim>\<open>tracks\<close> then no longer stand at the positions of their tracks in
  \<^verbatim>\<open>self.trackers\<close>. Here the live tracks are such a track (identity 0) followed by
  a track at rest on the box \<open>[0, 0, 10, 10]\<close> (identity 1), and the frame has the one
  detection \<open>[0, 0, 10, 10]\<close>. The detection is associated with row 0 of \<^verbatim>\<open>tracks\<close>,
  which is the box of track 1, and line 270 updates \<^verbatim>\<open>self.trackers[0]\<close>, which is
  track 0. After the frame both tracks are live, track 0 has the hit and is reported
  (as identity \<open>0 + 1\<close>), and track 1 has missed the frame.
\<close>

theorem C4_infinite_prediction_kept:
  "snd (KalmanBoxTracker_predict
     \<lparr>kf = \<lparr>kf_x = [Fin 5, Fin 5, Fin 4, Fin 0, Fin 0, Fin 0, Fin 0], kf_P = kf_P0\<rparr>,
      time_since_update = 0, trk_id = 0, history = [], hits = 0, hit_streak = 0, age = 0,
      conf = Fin (9 / 10), cls = 0\<rparr>) = \<lparr>x1 = Fin 5, y1 = NInf, x2 = Fin 5, y2 = PInf\<rparr> \<and>
   (case SortTracker_update linear_sum_assignment 2
      \<lparr>max_age = 1, min_hits = 3, iou_threshold = Fin (3 / 10),
       trackers =
         [\<lparr>kf = \<lparr>kf_x = [Fin 5, Fin 5, Fin 4, Fin 0, Fin 0, Fin 0, Fin 0], kf_P = kf_P0\<rparr>,
           time_since_update = 0, trk_id = 0, history = [], hits = 0, hit_streak = 0, age = 0,
           conf = Fin (9 / 10), cls = 0\<rparr>,
          \<lparr>kf = \<lparr>kf_x = rest_state 0 0 10 10, kf_P = kf_P0\<rparr>,
           time_since_update = 0, trk_id = 1, history = [], hits = 0, hit_streak = 0, age = 0,
           conf = Fin (9 / 10), cls = 0\<rparr>],
       frame_count = 1\<rparr>
      [\<lparr>x1 = Fin 0, y1 = Fin 0, x2 = Fin 10, y2 = Fin 10, score = Fin (9 / 10), class_id = Fin 0\<rparr>] of
      Inl e \<Rightarrow> False
    | Inr (self', count', ret) \<Rightarrow>
        map trk_id (trackers self') = [0, 1] \<and>
        map time_since_update (trackers self') = [0, 1] \<and>
        map hits (trackers self') = [1, 0] \<and>
        map (\<lambda>row. row ! 4) ret = [Fin 1])"
proof -
  obtain k where k: "KalmanFilter_update
      \<lparr>kf_x = [Fin 5, Fin 5, Fin 4, Fin 0, Fin 0, Fin 0, Fin 0], kf_P = cov1\<rparr>
      (convert_bbox_to_z \<lparr>x1 = Fin 0, y1 = Fin 0, x2 = Fin 10, y2 = Fin 10,
         score = Fin (9 / 10), class_id = Fin 0\<rparr>) = Inr k"
    using update_cov1_total by blast
  show ?thesis
    by (simp add: SortTracker_update_def advance_flat [OF k] predict_flat numeral_2_eq_2
          reportable_def report_row_def Let_def)
qed

subsection \<open>The report of a frame\<close>

text \<open>
  The walk of lines 276-286 visits the live tracks from the last one to the first,
  appends the row of every reportable track and pops every dead one; popping a track
  at its own index leaves the tracks not yet visited in place.
\<close>

lemma take_del_at: "take i (del_at i xs) = take i xs"
  by (cases "i \<le> length xs") (simp_all add: del_at_def)

lemma drop_del_at: "i < length xs \<Longrightarrow> drop i (del_at i xs) = drop (Suc i) xs"
  by (simp add: del_at_def)

lemma report_loop_result:
  "i \<le> length trks \<Longrightarrow>
   report_loop self i trks ret =
     (filter (\<lambda>t. \<not> time_since_update t > max_age self) (take i trks) @ drop i trks,
      ret @ map report_row (filter (reportable self) (rev (take i trks))))"
proof (induction i arbitrary: trks ret)
  case 0
  then show ?case by simp
next
  case (Suc i)
  then have i: "i < length trks" by simp
  have t: "take (Suc i) trks = take i trks @ [trks ! i]"
    using i by (simp add: take_Suc_conv_app_nth)
  have d: "drop i trks = trks ! i # drop (Suc i) trks"
    using i by (simp add: Cons_nth_drop_Suc)
  show ?case
  proof (cases "time_since_update (trks ! i) > max_age self")
    case True
    have l: "i \<le> length (del_at i trks)" using i by (simp add: del_at_def)
    show ?thesis
      using True Suc.IH [OF l] i
      by (simp add: Let_def t take_del_at drop_del_at)
  next
    case False
    have l: "i \<le> length trks" using i by simp
    show ?thesis
      using False Suc.IH [OF l] i
      by (simp add: Let_def t d)
  qed
qed

lemma report_all:
  "report_loop self (length trks) trks [] =
     (filter (\<lambda>t. \<not> time_since_update t > max_age self) trks,
      map report_row (filter (reportable self) (rev trks)))"
  using report_loop_result [of "length trks" trks self "[]"] by simp

text \<open>
  A detection of positive width and height has IoU \<open>1\<close> with the box of a track at
  rest on it, so for a threshold below \<open>1\<close> the pair is matched on the fast path.
\<close>

lemma iou_same:
  assumes "a < c" "b < d"
    and D: "x1 D = Fin a" "y1 D = Fin b" "x2 D = Fin c" "y2 D = Fin d"
    and B: "x1 B = Fin a" "y1 B = Fin b" "x2 B = Fin c" "y2 B = Fin d"
  shows "iou_entry D B = Fin 1"
proof -
  have "0 < (c - a) * (d - b)" using assms(1,2) by simp
  then show ?thesis
    using assms(1,2)
    by (simp add: iou_entry_def np_maximum_def np_minimum_def Let_def minus_npfloat_def D B)
qed

lemma assoc_same:
  assumes "a < c" "b < d" "t < 1"
    and D: "x1 D = Fin a" "y1 D = Fin b" "x2 D = Fin c" "y2 D = Fin d"
    and B: "x1 B = Fin a" "y1 B = Fin b" "x2 B = Fin c" "y2 B = Fin d"
  shows "associate_detections_to_trackers lsa [D] [B] (Fin t) = Inr ([(0, 0)], [], [])"
  using assms(3)
  by (simp add: associate_detections_to_trackers_def iou_batch_def iou_same [OF assms(1,2) D B]
        matching_step_def np_max_def np_where_def getitem_def Let_def)


lemma row_rest:
  assumes "a < c" "b < d" and "kf_x (kf trk) = rest_state a b c d"
  shows "report_row trk =
         [Fin a, Fin b, Fin c, Fin d, Fin (of_int (trk_id trk + 1)), Fin (of_int (cls trk)), conf trk]"
  using assms(3) bbox_of_rest [OF assms(1,2)] by (simp add: report_row_def get_state_def Let_def)

lemma frame1:
  assumes "a < c" "b < d"
  shows "SortTracker_update lsa n \<lparr>max_age = 1, min_hits = 3, iou_threshold = Fin t, trackers = [], frame_count = 0\<rparr> [\<lparr>x1 = Fin a, y1 = Fin b, x2 = Fin c, y2 = Fin d, score = sc, class_id = Fin (of_int cl)\<rparr>]
         = Inr (\<lparr>max_age = 1, min_hits = 3, iou_threshold = Fin t, trackers = [\<lparr>kf = \<lparr>kf_x = rest_state a b c d, kf_P = kf_P0\<rparr>, time_since_update = 0, trk_id = n, history = [], hits = 0, hit_streak = 0, age = 0, conf = sc, cls = cl\<rparr>], frame_count = 1\<rparr>, n + 1, [[Fin a, Fin b, Fin c, Fin d, Fin (of_int (n + 1)), Fin (of_int cl), sc]])"
  using assms
  by (simp add: SortTracker_update_def advance_tracks_def associate_detections_to_trackers_def
        getitem_def Let_def init_rest [where a = a and b = b and c = c and d = d]
        reportable_def row_rest)

lemma frame2:
  assumes "a < c" "b < d" "t < 1"
  shows "SortTracker_update lsa m \<lparr>max_age = 1, min_hits = 3, iou_threshold = Fin t, trackers = [\<lparr>kf = \<lparr>kf_x = rest_state a b c d, kf_P = kf_P0\<rparr>, time_since_update = 0, trk_id = n, history = [], hits = 0, hit_streak = 0, age = 0, conf = sc, cls = cl\<rparr>], frame_count = 1\<rparr> [\<lparr>x1 = Fin a, y1 = Fin b, x2 = Fin c, y2 = Fin d, score = sc, class_id = Fin (of_int cl)\<rparr>]
         = Inr (\<lparr>max_age = 1, min_hits = 3, iou_threshold = Fin t, trackers = [\<lparr>kf = \<lparr>kf_x = rest_state a b c d, kf_P = cov2\<rparr>, time_since_update = 0, trk_id = n, history = [], hits = 1, hit_streak = 1, age = 1, conf = sc, cls = cl\<rparr>], frame_count = 2\<rparr>, m, [[Fin a, Fin b, Fin c, Fin d, Fin (of_int (n + 1)), Fin (of_int cl), sc]])"
  using assms
  by (simp add: SortTracker_update_def advance_tracks_def Let_def predict_rest0 update_rest1
        box_has_nan_def box_is_finite_def getitem_def reportable_def row_rest
        assoc_same [where a = a and b = b and c = c and d = d])

lemma frame3:
  assumes "a < c" "b < d" "t < 1"
  shows "SortTracker_update lsa m \<lparr>max_age = 1, min_hits = 3, iou_threshold = Fin t, trackers = [\<lparr>kf = \<lparr>kf_x = rest_state a b c d, kf_P = cov2\<rparr>, time_since_update = 0, trk_id = n, history = [], hits = 1, hit_streak = 1, age = 1, conf = sc, cls = cl\<rparr>], frame_count = 2\<rparr> [\<lparr>x1 = Fin a, y1 = Fin b, x2 = Fin c, y2 = Fin d, score = sc, class_id = Fin (of_int cl)\<rparr>]
         = Inr (\<lparr>max_age = 1, min_hits = 3, iou_threshold = Fin t, trackers = [\<lparr>kf = \<lparr>kf_x = rest_state a b c d, kf_P = cov4\<rparr>, time_since_update = 0, trk_id = n, history = [], hits = 2, hit_streak = 2, age = 2, conf = sc, cls = cl\<rparr>], frame_count = 3\<rparr>, m, [[Fin a, Fin b, Fin c, Fin d, Fin (of_int (n + 1)), Fin (of_int cl), sc]])"
  using assms
  by (simp add: SortTracker_update_def advance_tracks_def Let_def predict_rest2 update_rest3
        box_has_nan_def box_is_finite_def getitem_def reportable_def row_rest
        assoc_same [where a = a and b = b and c = c and d = d])

text \<open>
  Identities are handed out in increasing order and new tracks are appended, so the
  live tracks are stored in the order of their creation.
\<close>

lemma set_del_at: "set (del_at i xs) \<subseteq> set xs"
  by (auto simp: del_at_def dest: in_set_takeD in_set_dropD)

lemma sorted_wrt_del_at: "sorted_wrt R xs \<Longrightarrow> sorted_wrt R (del_at i xs)"
proof -
  assume s: "sorted_wrt R xs"
  have "sorted_wrt R (take i xs @ drop i xs)" using s by simp
  then have "\<forall>x \<in> set (take i xs). \<forall>y \<in> set (drop i xs). R x y"
    unfolding sorted_wrt_append by blast
  moreover have "set (drop (Suc i) xs) \<subseteq> set (drop i xs)"
    by (rule set_drop_subset_set_drop) simp
  ultimately show ?thesis
    using s unfolding del_at_def sorted_wrt_append
    by (auto intro: sorted_wrt_take sorted_wrt_drop)
qed

lemma pop_all_sub: "set (pop_all ts xs) \<subseteq> set xs"
proof (induction ts arbitrary: xs)
  case Nil
  then show ?case by simp
next
  case (Cons t ts)
  then show ?case using set_del_at [of t xs] by fastforce
qed

lemma pop_all_sorted: "sorted_wrt R xs \<Longrightarrow> sorted_wrt R (pop_all ts xs)"
  by (induction ts arbitrary: xs) (simp_all add: sorted_wrt_del_at)

lemma update_matched_ids:
  "update_matched trks dets ms = Inr trks' \<Longrightarrow> map trk_id trks' = map trk_id trks"
proof (induction ms arbitrary: trks)
  case Nil
  then show ?case by simp
next
  case (Cons m ms)
  from Cons.prems obtain trk' where g: "snd m < length trks"
    and u: "KalmanBoxTracker_update (trks ! snd m) (dets ! fst m) = Inr trk'"
    and r: "update_matched (trks[snd m := trk']) dets ms = Inr trks'"
    by (auto simp: getitem_def split: sum.splits if_splits)
  from update_fields(1) [OF u] g have "map trk_id (trks[snd m := trk']) = map trk_id trks"
    by (simp add: map_update list_update_same_conv)
  with Cons.IH [OF r] show ?case by simp
qed

lemma create_tracks_ids:
  "create_tracks count trks dets js = Inr (trks', count') \<Longrightarrow>
   map trk_id trks' = map trk_id trks @ map (\<lambda>k. count + int k) [0..<length js] \<and>
   count' = count + int (length js)"
proof (induction js arbitrary: count trks)
  case Nil
  then show ?case by simp
next
  case (Cons j js)
  from Cons.prems obtain d :: detection and cl where
    r: "create_tracks (count + 1) (trks @ [fst (KalmanBoxTracker_init count d (score d) cl)]) dets js
        = Inr (trks', count')"
    by (auto simp: KalmanBoxTracker_init_def split: sum.splits)
  have "[0..<length (j # js)] = 0 # map Suc [0..<length js]"
    by (simp add: upt_conv_Cons map_Suc_upt del: upt_Suc)
  with Cons.IH [OF r] show ?case
    by (simp add: KalmanBoxTracker_init_def comp_def del: upt_Suc)
qed

lemma advance_ids:
  assumes a: "advance_tracks lsa count self dets = Inr (mid, count')"
    and s: "sorted_wrt (<) (map trk_id (trackers self))"
    and b: "\<forall>trk \<in> set (trackers self). trk_id trk < count"
  shows "sorted_wrt (<) (map trk_id (trackers mid)) \<and>
         (\<forall>trk \<in> set (trackers mid). trk_id trk < count') \<and> count \<le> count'"
proof -
  define P where "P = map (\<lambda>t. fst (KalmanBoxTracker_predict t)) (trackers self)"
  have idP: "map trk_id P = map trk_id (trackers self)"
    by (simp add: P_def predict_fields comp_def)
  from a obtain td matched ud trks' where
    u: "update_matched (pop_all td P) dets matched = Inr trks'"
    and c: "create_tracks count trks' dets ud = Inr (trackers mid, count')"
    by (auto simp: advance_tracks_def Let_def P_def comp_def split: sum.splits prod.splits)
  have sP: "sorted_wrt (\<lambda>x y. trk_id x < trk_id y) P"
    using s idP by (simp add: sorted_wrt_map [symmetric])
  have bP: "\<forall>trk \<in> set P. trk_id trk < count"
    using b by (auto simp: P_def predict_fields)
  have s1: "sorted_wrt (<) (map trk_id (pop_all td P))"
    using pop_all_sorted [OF sP, of td] by (simp add: sorted_wrt_map)
  have b1: "\<forall>i \<in> set (map trk_id (pop_all td P)). i < count"
    using bP pop_all_sub [of td P] by auto
  note i2 = update_matched_ids [OF u]
  note i3 = create_tracks_ids [OF c]
  have "sorted_wrt (<) (map (\<lambda>k. count + int k) [0..<length ud])"
    by (simp add: sorted_wrt_map sorted_wrt_upt)
  then have "sorted_wrt (<) (map trk_id (trackers mid))"
    using s1 b1 i2 i3 by (auto simp: sorted_wrt_append)
  moreover have "\<forall>i \<in> set (map trk_id (trackers mid)). i < count'"
    using b1 i2 i3 by auto
  then have "\<forall>trk \<in> set (trackers mid). trk_id trk < count'"
    by simp
  ultimately show ?thesis using i3 by simp
qed

text \<open>
  Claim C1. In every frame the report consists of the rows of exactly the live tracks
  (as they stand after prediction, association, update and creation, with the frame
  counted) that satisfy \<open>time_since_update < 1\<close> and (\<open>hit_streak \<ge> min_hits\<close> or
  \<open>frame_count \<le> min_hits\<close>), and the row of a track is
  \<open>[x1, y1, x2, y2, id + 1, class, confidence]\<close>. In particular, with \<open>min_hits = 3\<close>,
  \<open>max_age = 1\<close> and a threshold below \<open>1\<close>, a tracker that is fed the same box of
  positive width and height in its first three frames returns, in each of them, the
  one row of the track created in frame 1, whose streak is then \<open>0\<close>, \<open>1\<close> and \<open>2\<close>.
\<close>

theorem C1_report_condition:
  "(SortTracker_update lsa count self dets = Inr (self', count', ret) \<longrightarrow>
      (\<exists>mid. advance_tracks lsa count self dets = Inr (mid, count') \<and>
         frame_count mid = frame_count self + 1 \<and> min_hits mid = min_hits self \<and>
         ret = map report_row (filter (reportable mid) (rev (trackers mid))) \<and>
         (\<forall>trk. reportable mid trk \<longleftrightarrow>
            time_since_update trk < 1 \<and>
            (hit_streak trk \<ge> min_hits self \<or> frame_count self + 1 \<le> min_hits self)) \<and>
         (\<forall>trk. report_row trk =
            [x1 (get_state trk), y1 (get_state trk), x2 (get_state trk), y2 (get_state trk),
             Fin (of_int (trk_id trk + 1)), Fin (of_int (cls trk)), conf trk]))) \<and>
   (a < c \<and> b < d \<and> t < 1 \<longrightarrow>
      (\<exists>s0 s1 s2 s3.
         SortTracker_init 1 3 (Fin t) = Inr s0 \<and>
         SortTracker_update lsa n s0 [\<lparr>x1 = Fin a, y1 = Fin b, x2 = Fin c, y2 = Fin d, score = sc, class_id = Fin (of_int cl)\<rparr>]
           = Inr (s1, n + 1, [[Fin a, Fin b, Fin c, Fin d, Fin (of_int (n + 1)), Fin (of_int cl), sc]]) \<and>
         SortTracker_update lsa (n + 1) s1 [\<lparr>x1 = Fin a, y1 = Fin b, x2 = Fin c, y2 = Fin d, score = sc, class_id = Fin (of_int cl)\<rparr>]
           = Inr (s2, n + 1, [[Fin a, Fin b, Fin c, Fin d, Fin (of_int (n + 1)), Fin (of_int cl), sc]]) \<and>
         SortTracker_update lsa (n + 1) s2 [\<lparr>x1 = Fin a, y1 = Fin b, x2 = Fin c, y2 = Fin d, score = sc, class_id = Fin (of_int cl)\<rparr>]
           = Inr (s3, n + 1, [[Fin a, Fin b, Fin c, Fin d, Fin (of_int (n + 1)), Fin (of_int cl), sc]]) \<and>
         map hit_streak (trackers s1) = [0] \<and> map hit_streak (trackers s2) = [1] \<and>
         map hit_streak (trackers s3) = [2]))"
proof (intro conjI impI)
  assume u: "SortTracker_update lsa count self dets = Inr (self', count', ret)"
  then obtain mid where a: "advance_tracks lsa count self dets = Inr (mid, count')"
    and r: "ret = map report_row (filter (reportable mid) (rev (trackers mid)))"
    by (auto simp: SortTracker_update_def report_all split: sum.splits)
  from a have f: "frame_count mid = frame_count self + 1" "min_hits mid = min_hits self"
    by (auto simp: advance_tracks_def Let_def split: sum.splits prod.splits)
  show "\<exists>mid. advance_tracks lsa count self dets = Inr (mid, count') \<and>
         frame_count mid = frame_count self + 1 \<and> min_hits mid = min_hits self \<and>
         ret = map report_row (filter (reportable mid) (rev (trackers mid))) \<and>
         (\<forall>trk. reportable mid trk \<longleftrightarrow>
            time_since_update trk < 1 \<and>
            (hit_streak trk \<ge> min_hits self \<or> frame_count self + 1 \<le> min_hits self)) \<and>
         (\<forall>trk. report_row trk =
            [x1 (get_state trk), y1 (get_state trk), x2 (get_state trk), y2 (get_state trk),
             Fin (of_int (trk_id trk + 1)), Fin (of_int (cls trk)), conf trk])"
    using a r f by (intro exI [of _ mid]) (simp add: reportable_def report_row_def Let_def)
next
  assume h: "a < c \<and> b < d \<and> t < 1"
  then have ac: "a < c" and bd: "b < d" and t: "t < 1" by simp_all
  show "\<exists>s0 s1 s2 s3.
         SortTracker_init 1 3 (Fin t) = Inr s0 \<and>
         SortTracker_update lsa n s0 [\<lparr>x1 = Fin a, y1 = Fin b, x2 = Fin c, y2 = Fin d, score = sc, class_id = Fin (of_int cl)\<rparr>]
           = Inr (s1, n + 1, [[Fin a, Fin b, Fin c, Fin d, Fin (of_int (n + 1)), Fin (of_int cl), sc]]) \<and>
         SortTracker_update lsa (n + 1) s1 [\<lparr>x1 = Fin a, y1 = Fin b, x2 = Fin c, y2 = Fin d, score = sc, class_id = Fin (of_int cl)\<rparr>]
           = Inr (s2, n + 1, [[Fin a, Fin b, Fin c, Fin d, Fin (of_int (n + 1)), Fin (of_int cl), sc]]) \<and>
         SortTracker_update lsa (n + 1) s2 [\<lparr>x1 = Fin a, y1 = Fin b, x2 = Fin c, y2 = Fin d, score = sc, class_id = Fin (of_int cl)\<rparr>]
           = Inr (s3, n + 1, [[Fin a, Fin b, Fin c, Fin d, Fin (of_int (n + 1)), Fin (of_int cl), sc]]) \<and>
         map hit_streak (trackers s1) = [0] \<and> map hit_streak (trackers s2) = [1] \<and>
         map hit_streak (trackers s3) = [2]"
    by (simp add: SortTracker_init_def frame1 [OF ac bd] frame2 [OF ac bd t] frame3 [OF ac bd t])
qed

theorem C1_report_condition_witness:
  "SortTracker_init 1 3 (Fin (3 / 10)) = Inr \<lparr>max_age = 1, min_hits = 3, iou_threshold = Fin (3 / 10), trackers = [], frame_count = 0\<rparr> \<and>
   SortTracker_update linear_sum_assignment 0 \<lparr>max_age = 1, min_hits = 3, iou_threshold = Fin (3 / 10), trackers = [], frame_count = 0\<rparr>
     [\<lparr>x1 = Fin 0, y1 = Fin 0, x2 = Fin 10, y2 = Fin 10, score = Fin (9 / 10), class_id = Fin 2\<rparr>]
   = Inr (\<lparr>max_age = 1, min_hits = 3, iou_threshold = Fin (3 / 10), trackers = [\<lparr>kf = \<lparr>kf_x = rest_state 0 0 10 10, kf_P = kf_P0\<rparr>, time_since_update = 0, trk_id = 0, history = [], hits = 0, hit_streak = 0, age = 0, conf = Fin (9 / 10), cls = 2\<rparr>], frame_count = 1\<rparr>, 1, [[Fin 0, Fin 0, Fin 10, Fin 10, Fin 1, Fin 2, Fin (9 / 10)]]) \<and>
   SortTracker_update linear_sum_assignment 1 \<lparr>max_age = 1, min_hits = 3, iou_threshold = Fin (3 / 10), trackers = [\<lparr>kf = \<lparr>kf_x = rest_state 0 0 10 10, kf_P = kf_P0\<rparr>, time_since_update = 0, trk_id = 0, history = [], hits = 0, hit_streak = 0, age = 0, conf = Fin (9 / 10), cls = 2\<rparr>], frame_count = 1\<rparr>
     [\<lparr>x1 = Fin 0, y1 = Fin 0, x2 = Fin 10, y2 = Fin 10, score = Fin (9 / 10), class_id = Fin 2\<rparr>]
   = Inr (\<lparr>max_age = 1, min_hits = 3, iou_threshold = Fin (3 / 10), trackers = [\<lparr>kf = \<lparr>kf_x = rest_state 0 0 10 10, kf_P = cov2\<rparr>, time_since_update = 0, trk_id = 0, history = [], hits = 1, hit_streak = 1, age = 1, conf = Fin (9 / 10), cls = 2\<rparr>], frame_count = 2\<rparr>, 1, [[Fin 0, Fin 0, Fin 10, Fin 10, Fin 1, Fin 2, Fin (9 / 10)]]) \<and>
   SortTracker_update linear_sum_assignment 1 \<lparr>max_age = 1, min_hits = 3, iou_threshold = Fin (3 / 10), trackers = [\<lparr>kf = \<lparr>kf_x = rest_state 0 0 10 10, kf_P = cov2\<rparr>, time_since_update = 0, trk_id = 0, history = [], hits = 1, hit_streak = 1, age = 1, conf = Fin (9 / 10), cls = 2\<rparr>], frame_count = 2\<rparr>
     [\<lparr>x1 = Fin 0, y1 = Fin 0, x2 = Fin 10, y2 = Fin 10, score = Fin (9 / 10), class_id = Fin 2\<rparr>]
   = Inr (\<lparr>max_age = 1, min_hits = 3, iou_threshold = Fin (3 / 10), trackers = [\<lparr>kf = \<lparr>kf_x = rest_state 0 0 10 10, kf_P = cov4\<rparr>, time_since_update = 0, trk_id = 0, history = [], hits = 2, hit_streak = 2, age = 2, conf = Fin (9 / 10), cls = 2\<rparr>], frame_count = 3\<rparr>, 1, [[Fin 0, Fin 0, Fin 10, Fin 10, Fin 1, Fin 2, Fin (9 / 10)]]) \<and>
   reportable \<lparr>max_age = 1, min_hits = 3, iou_threshold = Fin (3 / 10), trackers = [\<lparr>kf = \<lparr>kf_x = rest_state 0 0 10 10, kf_P = cov4\<rparr>, time_since_update = 0, trk_id = 0, history = [], hits = 2, hit_streak = 2, age = 2, conf = Fin (9 / 10), cls = 2\<rparr>], frame_count = 3\<rparr> (hd (trackers \<lparr>max_age = 1, min_hits = 3, iou_threshold = Fin (3 / 10), trackers = [\<lparr>kf = \<lparr>kf_x = rest_state 0 0 10 10, kf_P = cov4\<rparr>, time_since_update = 0, trk_id = 0, history = [], hits = 2, hit_streak = 2, age = 2, conf = Fin (9 / 10), cls = 2\<rparr>], frame_count = 3\<rparr>))"
proof -
  have f1: "SortTracker_update linear_sum_assignment 0 \<lparr>max_age = 1, min_hits = 3, iou_threshold = Fin (3 / 10), trackers = [], frame_count = 0\<rparr>
     [\<lparr>x1 = Fin 0, y1 = Fin 0, x2 = Fin 10, y2 = Fin 10, score = Fin (9 / 10), class_id = Fin 2\<rparr>]
   = Inr (\<lparr>max_age = 1, min_hits = 3, iou_threshold = Fin (3 / 10), trackers = [\<lparr>kf = \<lparr>kf_x = rest_state 0 0 10 10, kf_P = kf_P0\<rparr>, time_since_update = 0, trk_id = 0, history = [], hits = 0, hit_streak = 0, age = 0, conf = Fin (9 / 10), cls = 2\<rparr>], frame_count = 1\<rparr>, 1, [[Fin 0, Fin 0, Fin 10, Fin 10, Fin 1, Fin 2, Fin (9 / 10)]])"
    using frame1 [of 0 10 0 10 linear_sum_assignment 0 "3 / 10" "Fin (9 / 10)" 2] by simp
  have f2: "SortTracker_update linear_sum_assignment 1 \<lparr>max_age = 1, min_hits = 3, iou_threshold = Fin (3 / 10), trackers = [\<lparr>kf = \<lparr>kf_x = rest_state 0 0 10 10, kf_P = kf_P0\<rparr>, time_since_update = 0, trk_id = 0, history = [], hits = 0, hit_streak = 0, age = 0, conf = Fin (9 / 10), cls = 2\<rparr>], frame_count = 1\<rparr>
     [\<lparr>x1 = Fin 0, y1 = Fin 0, x2 = Fin 10, y2 = Fin 10, score = Fin (9 / 10), class_id = Fin 2\<rparr>]
   = Inr (\<lparr>max_age = 1, min_hits = 3, iou_threshold = Fin (3 / 10), trackers = [\<lparr>kf = \<lparr>kf_x = rest_state 0 0 10 10, kf_P = cov2\<rparr>, time_since_update = 0, trk_id = 0, history = [], hits = 1, hit_streak = 1, age = 1, conf = Fin (9 / 10), cls = 2\<rparr>], frame_count = 2\<rparr>, 1, [[Fin 0, Fin 0, Fin 10, Fin 10, Fin 1, Fin 2, Fin (9 / 10)]])"
    using frame2 [of 0 10 0 10 "3 / 10" linear_sum_assignment 1 0 "Fin (9 / 10)" 2] by simp
  have f3: "SortTracker_update linear_sum_assignment 1 \<lparr>max_age = 1, min_hits = 3, iou_threshold = Fin (3 / 10), trackers = [\<lparr>kf = \<lparr>kf_x = rest_state 0 0 10 10, kf_P = cov2\<rparr>, time_since_update = 0, trk_id = 0, history = [], hits = 1, hit_streak = 1, age = 1, conf = Fin (9 / 10), cls = 2\<rparr>], frame_count = 2\<rparr>
     [\<lparr>x1 = Fin 0, y1 = Fin 0, x2 = Fin 10, y2 = Fin 10, score = Fin (9 / 10), class_id = Fin 2\<rparr>]
   = Inr (\<lparr>max_age = 1, min_hits = 3, iou_threshold = Fin (3 / 10), trackers = [\<lparr>kf = \<lparr>kf_x = rest_state 0 0 10 10, kf_P = cov4\<rparr>, time_since_update = 0, trk_id = 0, history = [], hits = 2, hit_streak = 2, age = 2, conf = Fin (9 / 10), cls = 2\<rparr>], frame_count = 3\<rparr>, 1, [[Fin 0, Fin 0, Fin 10, Fin 10, Fin 1, Fin 2, Fin (9 / 10)]])"
    using frame3 [of 0 10 0 10 "3 / 10" linear_sum_assignment 1 0 "Fin (9 / 10)" 2] by simp
  from C1_report_condition [of linear_sum_assignment 1 "\<lparr>max_age = 1, min_hits = 3, iou_threshold = Fin (3 / 10), trackers = [\<lparr>kf = \<lparr>kf_x = rest_state 0 0 10 10, kf_P = cov2\<rparr>, time_since_update = 0, trk_id = 0, history = [], hits = 1, hit_streak = 1, age = 1, conf = Fin (9 / 10), cls = 2\<rparr>], frame_count = 2\<rparr>"
      "[\<lparr>x1 = Fin 0, y1 = Fin 0, x2 = Fin 10, y2 = Fin 10, score = Fin (9 / 10), class_id = Fin 2\<rparr>]"
      "\<lparr>max_age = 1, min_hits = 3, iou_threshold = Fin (3 / 10), trackers = [\<lparr>kf = \<lparr>kf_x = rest_state 0 0 10 10, kf_P = cov4\<rparr>, time_since_update = 0, trk_id = 0, history = [], hits = 2, hit_streak = 2, age = 2, conf = Fin (9 / 10), cls = 2\<rparr>], frame_count = 3\<rparr>" 1
      "[[Fin 0, Fin 0, Fin 10, Fin 10, Fin 1, Fin 2, Fin (9 / 10)]]" 0 10 0 10 "3 / 10" 0 "Fin (9 / 10)" 2] f1 f2 f3
  show ?thesis by (simp add: SortTracker_init_def reportable_def)
qed

text \<open>
  Claim C9. The rows returned by \<open>SortTracker_update\<close> are the rows of the reportable
  tracks in the reverse of the order in which the live tracks are stored, both before
  and (for \<open>max_age \<ge> 0\<close>) after the dead tracks are popped. When the identities of
  the live tracks increase along the list and lie below the global counter, as they do
  from the creation of the tracker on, this remains so after the frame and the
  identities of the returned rows strictly decrease: the most recently created
  reportable track comes first and the oldest one last.
\<close>

theorem C9_reverse_storage_order:
  assumes u: "SortTracker_update lsa count self dets = Inr (self', count', ret)"
  shows "\<exists>mid. advance_tracks lsa count self dets = Inr (mid, count') \<and>
           ret = map report_row (filter (reportable mid) (rev (trackers mid))) \<and>
           trackers self' = filter (\<lambda>t. \<not> time_since_update t > max_age mid) (trackers mid) \<and>
           (0 \<le> max_age mid \<longrightarrow>
              ret = map report_row (filter (reportable mid) (rev (trackers self')))) \<and>
           (sorted_wrt (<) (map trk_id (trackers self)) \<and>
            (\<forall>trk \<in> set (trackers self). trk_id trk < count) \<longrightarrow>
              sorted_wrt (<) (map trk_id (trackers mid)) \<and>
              sorted_wrt (>) (map trk_id (filter (reportable mid) (rev (trackers mid)))) \<and>
              sorted_wrt (<) (map trk_id (trackers self')) \<and>
              (\<forall>trk \<in> set (trackers self'). trk_id trk < count'))"
proof -
  from u obtain mid where a: "advance_tracks lsa count self dets = Inr (mid, count')"
    and s: "self' = mid\<lparr>trackers := filter (\<lambda>t. \<not> time_since_update t > max_age mid) (trackers mid)\<rparr>"
    and r: "ret = map report_row (filter (reportable mid) (rev (trackers mid)))"
    by (auto simp: SortTracker_update_def report_all split: sum.splits)
  have live: "0 \<le> max_age mid \<Longrightarrow>
        filter (reportable mid) (rev (trackers self')) = filter (reportable mid) (rev (trackers mid))"
    unfolding s by (auto simp: rev_filter [symmetric] reportable_def intro!: filter_cong)
  have ids: "sorted_wrt (<) (map trk_id (trackers mid)) \<and>
             sorted_wrt (>) (map trk_id (filter (reportable mid) (rev (trackers mid)))) \<and>
             sorted_wrt (<) (map trk_id (trackers self')) \<and>
             (\<forall>trk \<in> set (trackers self'). trk_id trk < count')"
    if i: "sorted_wrt (<) (map trk_id (trackers self))"
      "\<forall>trk \<in> set (trackers self). trk_id trk < count"
  proof -
    from advance_ids [OF a i]
    have m: "sorted_wrt (<) (map trk_id (trackers mid))"
      and b: "\<forall>trk \<in> set (trackers mid). trk_id trk < count'" by simp_all
    from m have m': "sorted_wrt (\<lambda>x y. trk_id x < trk_id y) (trackers mid)"
      by (simp add: sorted_wrt_map)
    then have "sorted_wrt (\<lambda>x y. trk_id y < trk_id x) (rev (trackers mid))"
      by (simp add: sorted_wrt_rev)
    then have "sorted_wrt (\<lambda>x y. trk_id y < trk_id x) (filter (reportable mid) (rev (trackers mid)))"
      by (rule sorted_wrt_filter)
    then have d: "sorted_wrt (>) (map trk_id (filter (reportable mid) (rev (trackers mid))))"
      by (simp add: sorted_wrt_map)
    from m' have "sorted_wrt (\<lambda>x y. trk_id x < trk_id y) (trackers self')"
      unfolding s by (simp add: sorted_wrt_filter)
    then have "sorted_wrt (<) (map trk_id (trackers self'))"
      by (simp add: sorted_wrt_map)
    moreover have "\<forall>trk \<in> set (trackers self'). trk_id trk < count'"
      using b unfolding s by simp
    ultimately show ?thesis using m d by simp
  qed
  from a s r live ids show ?thesis by (intro exI [of _ mid]) simp
qed

theorem C9_reverse_storage_order_witness:
  "SortTracker_update linear_sum_assignment 0 \<lparr>max_age = 1, min_hits = 3, iou_threshold = Fin (3 / 10), trackers = [], frame_count = 0\<rparr>
     [\<lparr>x1 = Fin 0, y1 = Fin 0, x2 = Fin 10, y2 = Fin 10, score = Fin (9 / 10), class_id = Fin 2\<rparr>,
      \<lparr>x1 = Fin 20, y1 = Fin 20, x2 = Fin 30, y2 = Fin 40, score = Fin (4 / 5), class_id = Fin 1\<rparr>]
   = Inr (\<lparr>max_age = 1, min_hits = 3, iou_threshold = Fin (3 / 10), trackers = [\<lparr>kf = \<lparr>kf_x = rest_state 0 0 10 10, kf_P = kf_P0\<rparr>, time_since_update = 0, trk_id = 0, history = [], hits = 0, hit_streak = 0, age = 0, conf = Fin (9 / 10), cls = 2\<rparr>, \<lparr>kf = \<lparr>kf_x = rest_state 20 20 30 40, kf_P = kf_P0\<rparr>, time_since_update = 0, trk_id = 1, history = [], hits = 0, hit_streak = 0, age = 0, conf = Fin (4 / 5), cls = 1\<rparr>], frame_count = 1\<rparr>, 2,
          [[Fin 20, Fin 20, Fin 30, Fin 40, Fin 2, Fin 1, Fin (4 / 5)], [Fin 0, Fin 0, Fin 10, Fin 10, Fin 1, Fin 2, Fin (9 / 10)]]) \<and>
   map trk_id (trackers \<lparr>max_age = 1, min_hits = 3, iou_threshold = Fin (3 / 10), trackers = [\<lparr>kf = \<lparr>kf_x = rest_state 0 0 10 10, kf_P = kf_P0\<rparr>, time_since_update = 0, trk_id = 0, history = [], hits = 0, hit_streak = 0, age = 0, conf = Fin (9 / 10), cls = 2\<rparr>, \<lparr>kf = \<lparr>kf_x = rest_state 20 20 30 40, kf_P = kf_P0\<rparr>, time_since_update = 0, trk_id = 1, history = [], hits = 0, hit_streak = 0, age = 0, conf = Fin (4 / 5), cls = 1\<rparr>], frame_count = 1\<rparr>) = [0, 1] \<and>
   map trk_id (filter (reportable \<lparr>max_age = 1, min_hits = 3, iou_threshold = Fin (3 / 10), trackers = [\<lparr>kf = \<lparr>kf_x = rest_state 0 0 10 10, kf_P = kf_P0\<rparr>, time_since_update = 0, trk_id = 0, history = [], hits = 0, hit_streak = 0, age = 0, conf = Fin (9 / 10), cls = 2\<rparr>, \<lparr>kf = \<lparr>kf_x = rest_state 20 20 30 40, kf_P = kf_P0\<rparr>, time_since_update = 0, trk_id = 1, history = [], hits = 0, hit_streak = 0, age = 0, conf = Fin (4 / 5), cls = 1\<rparr>], frame_count = 1\<rparr>) (rev (trackers \<lparr>max_age = 1, min_hits = 3, iou_threshold = Fin (3 / 10), trackers = [\<lparr>kf = \<lparr>kf_x = rest_state 0 0 10 10, kf_P = kf_P0\<rparr>, time_since_update = 0, trk_id = 0, history = [], hits = 0, hit_streak = 0, age = 0, conf = Fin (9 / 10), cls = 2\<rparr>, \<lparr>kf = \<lparr>kf_x = rest_state 20 20 30 40, kf_P = kf_P0\<rparr>, time_since_update = 0, trk_id = 1, history = [], hits = 0, hit_streak = 0, age = 0, conf = Fin (4 / 5), cls = 1\<rparr>], frame_count = 1\<rparr>))) = [1, 0]"
proof -
  have f: "SortTracker_update linear_sum_assignment 0 \<lparr>max_age = 1, min_hits = 3, iou_threshold = Fin (3 / 10), trackers = [], frame_count = 0\<rparr>
     [\<lparr>x1 = Fin 0, y1 = Fin 0, x2 = Fin 10, y2 = Fin 10, score = Fin (9 / 10), class_id = Fin 2\<rparr>,
      \<lparr>x1 = Fin 20, y1 = Fin 20, x2 = Fin 30, y2 = Fin 40, score = Fin (4 / 5), class_id = Fin 1\<rparr>]
   = Inr (\<lparr>max_age = 1, min_hits = 3, iou_threshold = Fin (3 / 10), trackers = [\<lparr>kf = \<lparr>kf_x = rest_state 0 0 10 10, kf_P = kf_P0\<rparr>, time_since_update = 0, trk_id = 0, history = [], hits = 0, hit_streak = 0, age = 0, conf = Fin (9 / 10), cls = 2\<rparr>, \<lparr>kf = \<lparr>kf_x = rest_state 20 20 30 40, kf_P = kf_P0\<rparr>, time_since_update = 0, trk_id = 1, history = [], hits = 0, hit_streak = 0, age = 0, conf = Fin (4 / 5), cls = 1\<rparr>], frame_count = 1\<rparr>, 2,
          [[Fin 20, Fin 20, Fin 30, Fin 40, Fin 2, Fin 1, Fin (4 / 5)], [Fin 0, Fin 0, Fin 10, Fin 10, Fin 1, Fin 2, Fin (9 / 10)]])"
    by (simp add: SortTracker_update_def advance_tracks_def associate_detections_to_trackers_def
          getitem_def Let_def reportable_def
          init_rest [where a = 0 and b = 0 and c = 10 and d = 10]
          init_rest [where a = 20 and b = 20 and c = 30 and d = 40]
          row_rest [where a = 0 and b = 0 and c = 10 and d = 10]
          row_rest [where a = 20 and b = 20 and c = 30 and d = 40])
  from C9_reverse_storage_order [OF f] f show ?thesis
    by (simp add: reportable_def)
qed

end
